theory Spec2Isabelle
  imports Main "HOL-Library.Log_Nat"
begin

section \<open>The vault client of \<^verbatim>\<open>src/index.js\<close>\<close>

text \<open>
  A shallow embedding of the module: the constructor of \<^verbatim>\<open>ManageTeamVault\<close>, the
  built-in \<^verbatim>\<open>kubernetes\<close> auth method, \<^verbatim>\<open>getHttpsAgent\<close>, \<^verbatim>\<open>getToken\<close> and
  \<^verbatim>\<open>request\<close>. Every operation takes the instance and the world (clock, process
  environment, file system, the answers of the network) and returns its outcome, the
  updated instance, the world after the time it took, and the list of the effects it
  performed, in order. A \<^verbatim>\<open>throw\<close> (or a rejected promise) is the outcome \<open>Inl\<close>.
\<close>

subsection \<open>Values\<close>

text \<open>
  Timestamps are the integer milliseconds of \<^verbatim>\<open>Date.now()\<close>. A JavaScript number is
  an IEEE double; the numbers of this module are integer-valued doubles, \<^verbatim>\<open>NaN\<close> (the
  value of \<^verbatim>\<open>undefined * 1000\<close>) and the two infinities (a product that overflows).
\<close>

datatype number = Num int | NaN | Infinity | NegInfinity

text \<open>
  The double nearest to an integer, ties to even: an integer below \<open>2 ^ 53\<close> in magnitude
  is a double; a larger one keeps its 53 leading bits, rounded on the bits dropped; from
  \<open>2 ^ 1024\<close> on the result is an infinity.
\<close>

definition to_double :: "int \<Rightarrow> number" where
  "to_double x =
     (if \<bar>x\<bar> < 2 ^ 53 then Num x
      else
        (let e = nat (bitlen \<bar>x\<bar> - 53);
             q = \<bar>x\<bar> div 2 ^ e;
             r = \<bar>x\<bar> mod 2 ^ e;
             q' = (if 2 * r > 2 ^ e \<or> (2 * r = 2 ^ e \<and> odd q) then q + 1 else q);
             y = q' * 2 ^ e
         in if y \<ge> 2 ^ 1024 then (if x < 0 then NegInfinity else Infinity)
            else Num (if x < 0 then - y else y)))"

text \<open>
  \<^verbatim>\<open>a + b\<close> and \<^verbatim>\<open>a * b\<close> on doubles: the exact result, rounded to the nearest double.
\<close>

fun num_add :: "number \<Rightarrow> number \<Rightarrow> number" where
  "num_add (Num a) (Num b) = to_double (a + b)"
| "num_add NaN _ = NaN"
| "num_add _ NaN = NaN"
| "num_add Infinity NegInfinity = NaN"
| "num_add NegInfinity Infinity = NaN"
| "num_add Infinity _ = Infinity"
| "num_add _ Infinity = Infinity"
| "num_add NegInfinity _ = NegInfinity"
| "num_add _ NegInfinity = NegInfinity"

fun num_mul :: "number \<Rightarrow> number \<Rightarrow> number" where
  "num_mul (Num a) (Num b) = to_double (a * b)"
| "num_mul NaN _ = NaN"
| "num_mul _ NaN = NaN"
| "num_mul Infinity (Num b) = (if b = 0 then NaN else if b < 0 then NegInfinity else Infinity)"
| "num_mul NegInfinity (Num b) = (if b = 0 then NaN else if b < 0 then Infinity else NegInfinity)"
| "num_mul (Num a) Infinity = (if a = 0 then NaN else if a < 0 then NegInfinity else Infinity)"
| "num_mul (Num a) NegInfinity = (if a = 0 then NaN else if a < 0 then Infinity else NegInfinity)"
| "num_mul Infinity Infinity = Infinity"
| "num_mul NegInfinity NegInfinity = Infinity"
| "num_mul Infinity NegInfinity = NegInfinity"
| "num_mul NegInfinity Infinity = NegInfinity"

text \<open>
  \<^verbatim>\<open>a - b\<close> and \<^verbatim>\<open>a > b\<close>, as line 166 uses them: the difference of two integers is
  taken exactly. The clock of \<^verbatim>\<open>Date.now()\<close> is at most \<open>8.64 * 10 ^ 15\<close> in magnitude,
  below \<open>2 ^ 53\<close>, and against such a clock the comparison of line 166 comes out the same
  on the exact difference as on the rounded one (lemma \<open>rounded_difference_same_test\<close>).
\<close>

fun num_sub :: "number \<Rightarrow> number \<Rightarrow> number" where
  "num_sub (Num a) (Num b) = Num (a - b)"
| "num_sub NaN _ = NaN"
| "num_sub _ NaN = NaN"
| "num_sub Infinity Infinity = NaN"
| "num_sub NegInfinity NegInfinity = NaN"
| "num_sub Infinity _ = Infinity"
| "num_sub _ Infinity = NegInfinity"
| "num_sub NegInfinity _ = NegInfinity"
| "num_sub _ NegInfinity = Infinity"

fun num_gt :: "number \<Rightarrow> number \<Rightarrow> bool" where
  "num_gt (Num a) (Num b) = (a > b)"
| "num_gt NaN _ = False"
| "num_gt _ NaN = False"
| "num_gt Infinity Infinity = False"
| "num_gt Infinity _ = True"
| "num_gt _ Infinity = False"
| "num_gt NegInfinity _ = False"
| "num_gt _ NegInfinity = True"

text \<open>
  \<^verbatim>\<open>ToNumber\<close> of a numeric JSON field that may be absent: the parser yields the double
  nearest to the number sent.
\<close>

fun to_number :: "int option \<Rightarrow> number" where
  "to_number None = NaN"
| "to_number (Some n) = to_double n"

datatype jsval = VUndefined | VNull | VBool bool | VNum int | VStr string

text \<open>A thrown value: \<^verbatim>\<open>new Error(message)\<close>, or a \<^verbatim>\<open>TypeError\<close> of the runtime.\<close>

datatype error = Error string | TypeError string

text \<open>\<^verbatim>\<open>new Agent(config)\<close>: the trusted CA (if any) and \<^verbatim>\<open>rejectUnauthorized\<close>.\<close>

datatype agent = Agent "string option" bool

text \<open>\<^verbatim>\<open>const tokenRenewalCliff = 30 * 1000\<close>\<close>

definition tokenRenewalCliff :: int where
  "tokenRenewalCliff = 30 * 1000"

subsection \<open>The world\<close>

text \<open>
  A path of the file system is absent, a readable file with its contents, or an entry
  that exists but whose read fails (a directory, a file without permission).
\<close>

datatype fsnode = File string | Unreadable string

text \<open>
  The login exchange. A rejected \<^verbatim>\<open>post\<close> carries the text of \<^verbatim>\<open>e.message || e\<close> and,
  when \<^verbatim>\<open>e.response && e.response.data\<close> is truthy, the text of
  \<^verbatim>\<open>JSON.stringify(e.response.data, null, 4)\<close>. A resolved one carries the response
  (possibly a falsy value), whose \<^verbatim>\<open>data\<close> may lack \<^verbatim>\<open>auth\<close>, whose \<^verbatim>\<open>auth\<close> may
  lack \<^verbatim>\<open>client_token\<close> and \<^verbatim>\<open>lease_duration\<close>. The wire contract types
  \<^verbatim>\<open>client_token\<close> as a string and \<^verbatim>\<open>lease_duration\<close> as a number of seconds.
  \<open>data_json\<close> is the text of \<^verbatim>\<open>JSON.stringify(response.data)\<close>.
\<close>

record auth_fields =
  client_token :: "string option"
  lease_duration :: "int option"

record login_data =
  auth :: "auth_fields option"

record login_response =
  data :: "login_data option"
  data_json :: string

datatype post_result =
    Rejected string "string option"
  | Resolved "login_response option"

text \<open>The parameters of an outgoing data request, as handed to \<^verbatim>\<open>axios.request\<close>.\<close>

record out_params =
  o_baseURL :: string
  o_method :: string
  o_httpsAgent :: agent
  o_url :: "string option"
  o_data :: "string option"
  o_headers :: "string \<rightharpoonup> jsval"

text \<open>
  A failed data request carries the text of \<^verbatim>\<open>`${e}`\<close> and the optional text of the
  server's error body.
\<close>

datatype request_result =
    Failed string "string option"
  | Response jsval

record world =
  now :: int
  env :: "string \<rightharpoonup> string"
  fs :: "string \<rightharpoonup> fsnode"
  readTime :: "string \<Rightarrow> nat"
  loginReply :: "string \<Rightarrow> string \<Rightarrow> string \<Rightarrow> agent \<Rightarrow> nat \<times> post_result"
  requestReply :: "out_params \<Rightarrow> nat \<times> request_result"

text \<open>An awaited operation that takes \<open>d\<close> milliseconds.\<close>

definition elapse :: "nat \<Rightarrow> world \<Rightarrow> world" where
  "elapse d w = w\<lparr>now := now w + int d\<rparr>"

text \<open>\<^verbatim>\<open>existsSync(path)\<close>\<close>

definition existsSync :: "world \<Rightarrow> string \<Rightarrow> bool" where
  "existsSync w p = (fs w p \<noteq> None)"

text \<open>\<^verbatim>\<open>(await readFileAsync(path)).toString()\<close>\<close>

definition enoent :: "string \<Rightarrow> error" where
  "enoent p = Error (''ENOENT: no such file or directory, open '' @ p)"

definition readFileAsync :: "string \<Rightarrow> world \<Rightarrow> (error + string) \<times> world" where
  "readFileAsync p w =
     (case fs w p of
        None \<Rightarrow> (Inl (enoent p), elapse (readTime w p) w)
      | Some (Unreadable m) \<Rightarrow> (Inl (Error m), elapse (readTime w p) w)
      | Some (File s) \<Rightarrow> (Inr s, elapse (readTime w p) w))"

text \<open>\<^verbatim>\<open>process.env.X || d\<close>\<close>

definition env_or :: "world \<Rightarrow> string \<Rightarrow> string \<Rightarrow> string" where
  "env_or w k d = (case env w k of None \<Rightarrow> d | Some s \<Rightarrow> if s = [] then d else s)"

subsection \<open>\<^verbatim>\<open>defaults\<close>\<close>

definition getIgnoreSslCertCheck :: "world \<Rightarrow> bool" where
  "getIgnoreSslCertCheck w =
     (env w ''APP__ENV_NAME'' = Some ''local'' \<or> env w ''APP__ENV_NAME'' = Some ''test'')"

definition getBaseUrl :: "world \<Rightarrow> string" where
  "getBaseUrl w = env_or w ''VAULT_BASE_URL'' ''vault.nonprod.manageteam.internal:8200/v1''"

text \<open>
  The error-handling policy: called with the message of the error, it throws (\<open>Inl\<close>) or
  returns a value (\<open>Inr\<close>). The default one always throws.
\<close>

type_synonym handler = "string \<Rightarrow> error + jsval"

definition getErrorHandler :: handler where
  "getErrorHandler =
     (\<lambda>m. Inl (Error (''ManageTeamVault module error: '' @ (if m = [] then ''Error'' else m))))"

definition getAuthRole :: "world \<Rightarrow> string" where
  "getAuthRole w = env_or w ''K8S_SERVICE_ACCOUNT_NAME'' ''blockchain''"

definition getAuthServiceAccountPath :: "world \<Rightarrow> string" where
  "getAuthServiceAccountPath w =
     env_or w ''K8S_SERVICE_ACCOUNT_TOKEN_PATH'' ''/var/run/secrets/kubernetes.io/serviceaccount/token''"

definition getSslCertPath :: "world \<Rightarrow> string" where
  "getSslCertPath w = env_or w ''VAULT_CA_CERT_PATH'' ''/var/run/secrets/vault/ca.crt''"

definition getTokenDefault :: "world \<Rightarrow> string" where
  "getTokenDefault w = env_or w ''VAULT_TOKEN'' ''''"

definition getAuthMethod :: "world \<Rightarrow> string" where
  "getAuthMethod w = env_or w ''VAULT_AUTH_METHOD'' ''kubernetes''"

subsection \<open>The instance\<close>

text \<open>
  The data fields of a \<^verbatim>\<open>ManageTeamVault\<close> instance, and the instance itself, which
  also holds the error-handling policy and what the closure \<^verbatim>\<open>this.auth\<close> captured:
  the auth method and its options. A caller-supplied auth function runs with the
  instance as \<^verbatim>\<open>this\<close>: it reads and may write the data fields.
\<close>

record vault_fields =
  baseUrl :: string
  sslCertPath :: string
  ignoreSslCertCheck :: bool
  httpsAgent :: "agent option"
  token :: string
  tokenExpiresAt :: number

record auth_options =
  serviceAccountTokenPath :: "string option"
  role :: "string option"

type_synonym auth_function =
  "auth_options \<Rightarrow> vault_fields \<Rightarrow> world \<Rightarrow> (error + jsval) \<times> vault_fields \<times> world"

datatype auth_method = MethodName string | MethodFunction auth_function

record vault = vault_fields +
  errorHandler :: handler
  authMethod :: auth_method
  authOptions :: auth_options

definition get_fields :: "vault \<Rightarrow> vault_fields" where
  "get_fields v =
     \<lparr>baseUrl = baseUrl v, sslCertPath = sslCertPath v, ignoreSslCertCheck = ignoreSslCertCheck v,
      httpsAgent = httpsAgent v, token = token v, tokenExpiresAt = tokenExpiresAt v\<rparr>"

definition put_fields :: "vault_fields \<Rightarrow> vault \<Rightarrow> vault" where
  "put_fields f v =
     v\<lparr>baseUrl := baseUrl f, sslCertPath := sslCertPath f, ignoreSslCertCheck := ignoreSslCertCheck f,
       httpsAgent := httpsAgent f, token := token f, tokenExpiresAt := tokenExpiresAt f\<rparr>"

text \<open>The effects an operation performs.\<close>

datatype event =
    EvAuth
  | EvReadFile string
  | EvPost string string string agent
  | EvRequest out_params
  | EvHandler string

type_synonym 'a run = "(error + 'a) \<times> vault \<times> world \<times> event list"

definition outcome :: "'a run \<Rightarrow> error + 'a" where
  "outcome r = fst r"

definition vault_of :: "'a run \<Rightarrow> vault" where
  "vault_of r = fst (snd r)"

definition world_of :: "'a run \<Rightarrow> world" where
  "world_of r = fst (snd (snd r))"

definition trace :: "'a run \<Rightarrow> event list" where
  "trace r = snd (snd (snd r))"

text \<open>Classifying the effects of a trace.\<close>

fun is_auth :: "event \<Rightarrow> bool" where
  "is_auth EvAuth = True"
| "is_auth _ = False"

fun is_network :: "event \<Rightarrow> bool" where
  "is_network (EvPost url jwt rl a) = True"
| "is_network (EvRequest out) = True"
| "is_network _ = False"

fun is_handler :: "event \<Rightarrow> bool" where
  "is_handler (EvHandler m) = True"
| "is_handler _ = False"

subsection \<open>\<^verbatim>\<open>getHttpsAgent\<close>\<close>

definition getHttpsAgent :: "vault \<Rightarrow> world \<Rightarrow> agent run" where
  "getHttpsAgent v w =
     (case httpsAgent v of
        Some a \<Rightarrow> (Inr a, v, w, [])
      | None \<Rightarrow>
          if ignoreSslCertCheck v
          then (Inr (Agent None False), v\<lparr>httpsAgent := Some (Agent None False)\<rparr>, w, [])
          else (case readFileAsync (sslCertPath v) w of
                  (Inl e, w') \<Rightarrow> (Inl e, v, w', [EvReadFile (sslCertPath v)])
                | (Inr ca, w') \<Rightarrow>
                    (Inr (Agent (Some ca) True), v\<lparr>httpsAgent := Some (Agent (Some ca) True)\<rparr>, w',
                     [EvReadFile (sslCertPath v)])))"

subsection \<open>The \<^verbatim>\<open>kubernetes\<close> auth method\<close>

text \<open>The text of \<^verbatim>\<open>e.message || e\<close> for a caught error.\<close>

fun err_text :: "error \<Rightarrow> string" where
  "err_text (Error m) = (if m = [] then ''Error'' else m)"
| "err_text (TypeError m) = (if m = [] then ''TypeError'' else m)"

definition loginUrl :: "vault \<Rightarrow> string" where
  "loginUrl v = baseUrl v @ ''/auth/kubernetes/login''"

text \<open>The message built in the \<^verbatim>\<open>catch\<close> block (lines 56 to 59).\<close>

definition refreshError :: "vault \<Rightarrow> string \<Rightarrow> string option \<Rightarrow> string" where
  "refreshError v m srv =
     ''Vault token refresh error: unsuccessful POST '' @ baseUrl v @ ''/auth/kubernetes/login, '' @ m @
     (case srv of None \<Rightarrow> [] | Some s \<Rightarrow> ''; Server response: '' @ s)"

text \<open>The message of line 65.\<close>

definition unrecognizedError :: "login_response \<Rightarrow> string" where
  "unrecognizedError r = ''Vault auth: unrecognized response: '' @ data_json r"

text \<open>
  Both failure sites of the method are \<^verbatim>\<open>this.errorHandler(new Error(msg)); return this.token;\<close>:
  the policy is called, what it returns is dropped, and unless it throws the cached
  token is returned.
\<close>

definition handleAndReturnToken :: "vault \<Rightarrow> world \<Rightarrow> event list \<Rightarrow> string \<Rightarrow> jsval run" where
  "handleAndReturnToken v w tr msg =
     (case errorHandler v msg of
        Inl e \<Rightarrow> (Inl e, v, w, tr @ [EvHandler msg])
      | Inr _ \<Rightarrow> (Inr (VStr (token v)), v, w, tr @ [EvHandler msg]))"

text \<open>Lines 69 to 72: the state update, with \<^verbatim>\<open>Date.now()\<close> read at that moment.\<close>

definition loginSuccess :: "vault \<Rightarrow> world \<Rightarrow> event list \<Rightarrow> string \<Rightarrow> int option \<Rightarrow> jsval run" where
  "loginSuccess v w tr t lease =
     (Inr (VStr t),
      v\<lparr>token := t,
        tokenExpiresAt := num_add (Num (now w)) (num_mul (to_number lease) (Num 1000))\<rparr>,
      w, tr)"

text \<open>
  Lines 64 to 72: what the method does with a resolved response. When the response
  itself is falsy, \<^verbatim>\<open>JSON.stringify(response.data)\<close> throws before the policy is called.
\<close>

definition loginResolved :: "vault \<Rightarrow> world \<Rightarrow> event list \<Rightarrow> login_response option \<Rightarrow> jsval run" where
  "loginResolved v w tr resp =
     (case resp of
        None \<Rightarrow> (Inl (TypeError ''Cannot read properties of undefined (reading data)''), v, w, tr)
      | Some r \<Rightarrow>
          (case data r of
             None \<Rightarrow> handleAndReturnToken v w tr (unrecognizedError r)
           | Some d \<Rightarrow>
               (case auth d of
                  None \<Rightarrow> handleAndReturnToken v w tr (unrecognizedError r)
                | Some a \<Rightarrow>
                    (case client_token a of
                       None \<Rightarrow> handleAndReturnToken v w tr (unrecognizedError r)
                     | Some t \<Rightarrow>
                         if t = [] then handleAndReturnToken v w tr (unrecognizedError r)
                         else loginSuccess v w tr t (lease_duration a)))))"

text \<open>
  The \<^verbatim>\<open>try\<close> block (lines 46 to 53), in the order its arguments are evaluated: the
  URL is built, the credential file is read, the agent is obtained, then the login is
  posted. Whatever is thrown or rejected there is caught
  (\<open>Inl\<close>, with the text of \<^verbatim>\<open>e.message || e\<close> and of the server's body if any);
  otherwise the response is the result.
\<close>

datatype caught = Caught string "string option"

definition loginAttempt ::
  "string \<Rightarrow> string \<Rightarrow> vault \<Rightarrow> world \<Rightarrow> (caught + login_response option) \<times> vault \<times> world \<times> event list" where
  "loginAttempt path rl v w =
     (case readFileAsync path w of
        (Inl e, w1) \<Rightarrow> (Inl (Caught (err_text e) None), v, w1, [EvReadFile path])
      | (Inr jwt, w1) \<Rightarrow>
          (case getHttpsAgent v w1 of
             (Inl e, v2, w2, tr2) \<Rightarrow> (Inl (Caught (err_text e) None), v2, w2, EvReadFile path # tr2)
           | (Inr a, v2, w2, tr2) \<Rightarrow>
               (case loginReply w2 (loginUrl v) jwt rl a of
                  (d, Rejected m srv) \<Rightarrow>
                    (Inl (Caught m srv), v2, elapse d w2,
                     EvReadFile path # tr2 @ [EvPost (loginUrl v) jwt rl a])
                | (d, Resolved resp) \<Rightarrow>
                    (Inr resp, v2, elapse d w2,
                     EvReadFile path # tr2 @ [EvPost (loginUrl v) jwt rl a]))))"

text \<open>The parameters of the method after their defaults (lines 37 and 38).\<close>

definition eff_path :: "auth_options \<Rightarrow> world \<Rightarrow> string" where
  "eff_path opts w =
     (case serviceAccountTokenPath opts of None \<Rightarrow> getAuthServiceAccountPath w | Some p \<Rightarrow> p)"

definition eff_role :: "auth_options \<Rightarrow> world \<Rightarrow> string" where
  "eff_role opts w = (case role opts of None \<Rightarrow> getAuthRole w | Some r \<Rightarrow> r)"

definition kubernetes :: "auth_options \<Rightarrow> vault \<Rightarrow> world \<Rightarrow> jsval run" where
  "kubernetes opts v w =
     (if \<not> existsSync w (eff_path opts w)
      then (Inl (Error (''serviceAccountTokenPath: file not found '' @ eff_path opts w)), v, w, [])
      else
        (case loginAttempt (eff_path opts w) (eff_role opts w) v w of
           (Inl (Caught m srv), v2, w2, tr) \<Rightarrow> handleAndReturnToken v2 w2 tr (refreshError v2 m srv)
         | (Inr resp, v2, w2, tr) \<Rightarrow> loginResolved v2 w2 tr resp))"

subsection \<open>\<^verbatim>\<open>this.auth\<close> and \<^verbatim>\<open>getToken\<close>\<close>

text \<open>
  The closure of line 112. The constructor accepts no name but \<^verbatim>\<open>kubernetes\<close>; on an
  instance built otherwise the lookup \<^verbatim>\<open>authMethods[authMethod]\<close> finds no method of
  this module, and no strategy is invoked.
\<close>

definition auth_closure :: "vault \<Rightarrow> world \<Rightarrow> jsval run" where
  "auth_closure v w =
     (case authMethod v of
        MethodFunction f \<Rightarrow>
          (case f (authOptions v) (get_fields v) w of
             (r, fl, w') \<Rightarrow> (r, put_fields fl v, w', [EvAuth]))
      | MethodName n \<Rightarrow>
          if n = ''kubernetes''
          then (case kubernetes (authOptions v) v w of
                  (r, v', w', tr) \<Rightarrow> (r, v', w', EvAuth # tr))
          else (Inl (TypeError ''Cannot read properties of undefined (reading call)''), v, w, []))"

definition getToken :: "vault \<Rightarrow> world \<Rightarrow> jsval run" where
  "getToken v w =
     (if num_gt (num_sub (tokenExpiresAt v) (Num tokenRenewalCliff)) (Num (now w))
      then (Inr (VStr (token v)), v, w, [])
      else auth_closure v w)"

subsection \<open>The constructor\<close>

text \<open>The argument of the constructor: \<open>None\<close> is an omitted property.\<close>

record config =
  c_baseUrl :: "string option"
  c_sslCertPath :: "string option"
  c_errorHandler :: "handler option"
  c_ignoreSslCertCheck :: "bool option"
  c_token :: "string option"
  c_authMethod :: "auth_method option"
  c_authOptions :: "auth_options option"

text \<open>The values of the parameters after the defaults of lines 91 to 97.\<close>

definition eff_baseUrl :: "config \<Rightarrow> world \<Rightarrow> string" where
  "eff_baseUrl cfg w = (case c_baseUrl cfg of None \<Rightarrow> getBaseUrl w | Some b \<Rightarrow> b)"

definition eff_sslCertPath :: "config \<Rightarrow> world \<Rightarrow> string" where
  "eff_sslCertPath cfg w = (case c_sslCertPath cfg of None \<Rightarrow> getSslCertPath w | Some p \<Rightarrow> p)"

definition eff_errorHandler :: "config \<Rightarrow> handler" where
  "eff_errorHandler cfg = (case c_errorHandler cfg of None \<Rightarrow> getErrorHandler | Some h \<Rightarrow> h)"

definition eff_ignoreSslCertCheck :: "config \<Rightarrow> world \<Rightarrow> bool" where
  "eff_ignoreSslCertCheck cfg w =
     (case c_ignoreSslCertCheck cfg of None \<Rightarrow> getIgnoreSslCertCheck w | Some b \<Rightarrow> b)"

definition eff_token :: "config \<Rightarrow> world \<Rightarrow> string" where
  "eff_token cfg w = (case c_token cfg of None \<Rightarrow> getTokenDefault w | Some t \<Rightarrow> t)"

definition eff_authMethod :: "config \<Rightarrow> world \<Rightarrow> auth_method" where
  "eff_authMethod cfg w =
     (case c_authMethod cfg of None \<Rightarrow> MethodName (getAuthMethod w) | Some m \<Rightarrow> m)"

definition eff_authOptions :: "config \<Rightarrow> auth_options" where
  "eff_authOptions cfg =
     (case c_authOptions cfg of
        None \<Rightarrow> \<lparr>serviceAccountTokenPath = None, role = None\<rparr>
      | Some opts \<Rightarrow> opts)"

text \<open>
  \<^verbatim>\<open>typeof(authMethod) === "string" && !authMethods.hasOwnProperty(authMethod)\<close>: the only
  own property of \<^verbatim>\<open>authMethods\<close> is \<^verbatim>\<open>kubernetes\<close>.
\<close>

fun unsupported :: "auth_method \<Rightarrow> bool" where
  "unsupported (MethodName n) = (n \<noteq> ''kubernetes'')"
| "unsupported (MethodFunction f) = False"

fun method_text :: "auth_method \<Rightarrow> string" where
  "method_text (MethodName n) = n"
| "method_text (MethodFunction f) = []"

text \<open>\<^verbatim>\<open>s.replace(/^https?:\/\//, "")\<close> and \<^verbatim>\<open>s.replace(/\/$/, "")\<close>\<close>

definition strip_scheme :: "string \<Rightarrow> string" where
  "strip_scheme s =
     (if take 8 s = ''https://'' then drop 8 s
      else if take 7 s = ''http://'' then drop 7 s
      else s)"

definition strip_trailing_slash :: "string \<Rightarrow> string" where
  "strip_trailing_slash s = (if s \<noteq> [] \<and> last s = CHR ''/'' then butlast s else s)"

text \<open>\<^verbatim>\<open>31 * 24 * 60 * 60 * 1000\<close>\<close>

definition staticTokenHorizon :: int where
  "staticTokenHorizon = 31 * 24 * 60 * 60 * 1000"

definition constructor :: "config \<Rightarrow> world \<Rightarrow> error + vault" where
  "constructor cfg w =
     (if unsupported (eff_authMethod cfg w)
      then Inl (Error (''Vault: Unsupported auth method '' @ method_text (eff_authMethod cfg w)))
      else if \<not> existsSync w (eff_sslCertPath cfg w) \<and> \<not> eff_ignoreSslCertCheck cfg w
      then Inl (Error (''sslCertPath: file not found '' @ eff_sslCertPath cfg w))
      else if eff_baseUrl cfg w = []
      then Inl (Error ''Invalid baseUrl constructor parameter ()'')
      else Inr
        \<lparr>baseUrl = ''https://'' @ strip_trailing_slash (strip_scheme (eff_baseUrl cfg w)),
         sslCertPath = eff_sslCertPath cfg w,
         ignoreSslCertCheck = eff_ignoreSslCertCheck cfg w,
         httpsAgent = None,
         token = eff_token cfg w,
         tokenExpiresAt = (if eff_token cfg w \<noteq> [] then Num (now w + staticTokenHorizon) else Num 0),
         errorHandler = eff_errorHandler cfg,
         authMethod = eff_authMethod cfg w,
         authOptions = eff_authOptions cfg\<rparr>)"

subsection \<open>\<^verbatim>\<open>request\<close>\<close>

text \<open>The argument of \<^verbatim>\<open>request\<close>: \<open>None\<close> is an absent property.\<close>

record params =
  p_baseURL :: "string option"
  p_method :: "string option"
  p_httpsAgent :: "agent option"
  p_url :: "string option"
  p_data :: "string option"
  p_headers :: "(string \<rightharpoonup> jsval) option"

text \<open>\<^verbatim>\<open>Object.assign({ "X-Vault-Token": tok }, params.headers || {})\<close>\<close>

definition merge_headers :: "jsval \<Rightarrow> (string \<rightharpoonup> jsval) option \<Rightarrow> (string \<rightharpoonup> jsval)" where
  "merge_headers tok h =
     [''X-Vault-Token'' \<mapsto> tok] ++ (case h of None \<Rightarrow> Map.empty | Some hs \<Rightarrow> hs)"

definition outgoing :: "vault \<Rightarrow> agent \<Rightarrow> params \<Rightarrow> jsval \<Rightarrow> out_params" where
  "outgoing v a p tok =
     \<lparr>o_baseURL = (case p_baseURL p of None \<Rightarrow> baseUrl v | Some b \<Rightarrow> b),
      o_method = (case p_method p of None \<Rightarrow> ''post'' | Some m \<Rightarrow> m),
      o_httpsAgent = (case p_httpsAgent p of None \<Rightarrow> a | Some pa \<Rightarrow> pa),
      o_url = p_url p,
      o_data = p_data p,
      o_headers = merge_headers tok (p_headers p)\<rparr>"

text \<open>The message of lines 152 to 154.\<close>

definition requestError :: "out_params \<Rightarrow> string \<Rightarrow> string option \<Rightarrow> string \<Rightarrow> string" where
  "requestError out m srv tok =
     ''Vault: '' @ o_method out @ '' request to '' @ o_baseURL out @
     (case o_url out of None \<Rightarrow> ''undefined'' | Some u \<Rightarrow> u) @ '' failed, '' @ m @
     (case srv of None \<Rightarrow> [] | Some s \<Rightarrow> ''; Server response: '' @ s) @
     ''; Request data: '' @ (case o_data out of None \<Rightarrow> ''((empty))'' | Some d \<Rightarrow> d) @
     ''; Token: '' @ tok"

definition request :: "params \<Rightarrow> vault \<Rightarrow> world \<Rightarrow> jsval run" where
  "request p v w =
     (case getHttpsAgent v w of
        (Inl e, v1, w1, tr1) \<Rightarrow> (Inl e, v1, w1, tr1)
      | (Inr a, v1, w1, tr1) \<Rightarrow>
          (case getToken v1 w1 of
             (Inl e, v2, w2, tr2) \<Rightarrow> (Inl e, v2, w2, tr1 @ tr2)
           | (Inr tok, v2, w2, tr2) \<Rightarrow>
               (case requestReply w2 (outgoing v a p tok) of
                  (d, Response body) \<Rightarrow>
                    (Inr body, v2, elapse d w2, tr1 @ tr2 @ [EvRequest (outgoing v a p tok)])
                | (d, Failed m srv) \<Rightarrow>
                    (errorHandler v2 (requestError (outgoing v a p tok) m srv (token v2)),
                     v2, elapse d w2,
                     tr1 @ tr2 @ [EvRequest (outgoing v a p tok),
                                  EvHandler (requestError (outgoing v a p tok) m srv (token v2))]))))"

subsection \<open>Notions used in the statements\<close>

text \<open>
  The condition of the specification for a cache hit: the expiry minus the current time
  exceeds the renewal cliff of 30 seconds (never so for an expiry that is \<^verbatim>\<open>NaN\<close>,
  always so for one that is infinite).
\<close>

definition renewal_not_due :: "vault \<Rightarrow> world \<Rightarrow> bool" where
  "renewal_not_due v w =
     (case tokenExpiresAt v of
        Num e \<Rightarrow> e - now w > 30000
      | NaN \<Rightarrow> False
      | Infinity \<Rightarrow> True
      | NegInfinity \<Rightarrow> False)"

text \<open>Two instances that differ at most in the memoized agent.\<close>

definition agent_only :: "vault \<Rightarrow> vault \<Rightarrow> bool" where
  "agent_only v v' = (v'\<lparr>httpsAgent := None\<rparr> = v\<lparr>httpsAgent := None\<rparr>)"

text \<open>
  A login response that lacks the token of the wire contract: no \<^verbatim>\<open>data\<close>, no
  \<^verbatim>\<open>data.auth\<close>, or no (or an empty) \<^verbatim>\<open>data.auth.client_token\<close>.
\<close>

definition missing_token :: "login_response \<Rightarrow> bool" where
  "missing_token r =
     (case data r of
        None \<Rightarrow> True
      | Some d \<Rightarrow>
          (case auth d of
             None \<Rightarrow> True
           | Some a \<Rightarrow> (case client_token a of None \<Rightarrow> True | Some t \<Rightarrow> t = [])))"

text \<open>
  The failures of a login attempt and the message each is wrapped in: whatever the
  \<^verbatim>\<open>try\<close> block caught (the credential could not be read, the agent could not be
  built, the login was rejected), or a response that lacks the token.
\<close>

fun login_failure :: "vault \<Rightarrow> caught + login_response option \<Rightarrow> string option" where
  "login_failure v (Inl (Caught m srv)) = Some (refreshError v m srv)"
| "login_failure v (Inr (Some r)) = (if missing_token r then Some (unrecognizedError r) else None)"
| "login_failure v (Inr None) = None"

text \<open>
  What the caller of \<^verbatim>\<open>request\<close> finds under a header name: the caller's own value
  where it supplied one, else the token under \<^verbatim>\<open>X-Vault-Token\<close>, else nothing.
\<close>

definition expected_header :: "jsval \<Rightarrow> (string \<rightharpoonup> jsval) option \<Rightarrow> string \<Rightarrow> jsval option" where
  "expected_header tok h k =
     (case (case h of None \<Rightarrow> None | Some hs \<Rightarrow> hs k) of
        Some x \<Rightarrow> Some x
      | None \<Rightarrow> if k = ''X-Vault-Token'' then Some tok else None)"

text \<open>
  The configuration errors of the specification, on the parameters after their defaults:
  the auth method is a string that names no supported strategy, the CA file does not
  exist while certificate checks are not skipped, or the base URL is empty.
\<close>

definition configuration_error :: "config \<Rightarrow> world \<Rightarrow> bool" where
  "configuration_error cfg w =
     ((case eff_authMethod cfg w of MethodName n \<Rightarrow> n \<noteq> ''kubernetes'' | MethodFunction f \<Rightarrow> False)
      \<or> (fs w (eff_sslCertPath cfg w) = None \<and> \<not> eff_ignoreSslCertCheck cfg w)
      \<or> eff_baseUrl cfg w = [])"

text \<open>
  A caller-supplied auth function runs with the instance as \<^verbatim>\<open>this\<close> and could assign
  any field; this says that it leaves \<^verbatim>\<open>baseUrl\<close> alone, as the built-in method does.
\<close>

definition keeps_baseUrl :: "auth_method \<Rightarrow> bool" where
  "keeps_baseUrl m =
     (case m of
        MethodName n \<Rightarrow> True
      | MethodFunction f \<Rightarrow> (\<forall>opts fl w. baseUrl (fst (snd (f opts fl w))) = baseUrl fl))"

text \<open>
  A history of an instance: calls of its methods made one after the other, each in the
  world it finds (whatever happened in between), and the instance they leave.
\<close>

datatype call = CallGetHttpsAgent | CallGetToken | CallRequest params

fun perform :: "call \<Rightarrow> vault \<Rightarrow> world \<Rightarrow> vault" where
  "perform CallGetHttpsAgent v w = vault_of (getHttpsAgent v w)"
| "perform CallGetToken v w = vault_of (getToken v w)"
| "perform (CallRequest p) v w = vault_of (request p v w)"

fun after_calls :: "(call \<times> world) list \<Rightarrow> vault \<Rightarrow> vault" where
  "after_calls [] v = v"
| "after_calls ((c, w) # cs) v = after_calls cs (perform c v w)"

subsection \<open>A concrete deployment\<close>

text \<open>
  Scenario B of the specification: no environment variable is set, the service-account
  file holds \<^verbatim>\<open>jwt-abc\<close>, the CA file exists, and the login answers after 250 ms with
  the token \<^verbatim>\<open>tok-1\<close> leased for 3600 seconds.
\<close>

definition demo_response :: login_response where
  "demo_response =
     \<lparr>data = Some \<lparr>auth = Some \<lparr>client_token = Some ''tok-1'', lease_duration = Some 3600\<rparr>\<rparr>,
      data_json = ''{auth:{client_token:tok-1,lease_duration:3600}}''\<rparr>"

definition demo_world :: world where
  "demo_world =
     \<lparr>now = 1700000000000,
      env = Map.empty,
      fs = [''/var/run/secrets/kubernetes.io/serviceaccount/token'' \<mapsto> File ''jwt-abc'',
            ''/var/run/secrets/vault/ca.crt'' \<mapsto> File ''CA''],
      readTime = (\<lambda>p. 2),
      loginReply = (\<lambda>url jwt rl a. (250, Resolved (Some demo_response))),
      requestReply = (\<lambda>out. (40, Response VNull))\<rparr>"

definition demo_config :: config where
  "demo_config =
     \<lparr>c_baseUrl = Some ''http://vault.local:8200/v1/'', c_sslCertPath = None, c_errorHandler = None,
      c_ignoreSslCertCheck = None, c_token = None, c_authMethod = None, c_authOptions = None\<rparr>"

definition demo_vault :: vault where
  "demo_vault =
     \<lparr>baseUrl = ''https://vault.local:8200/v1'',
      sslCertPath = ''/var/run/secrets/vault/ca.crt'',
      ignoreSslCertCheck = False,
      httpsAgent = None,
      token = [],
      tokenExpiresAt = Num 0,
      errorHandler = getErrorHandler,
      authMethod = MethodName ''kubernetes'',
      authOptions = \<lparr>serviceAccountTokenPath = None, role = None\<rparr>\<rparr>"

text \<open>The same deployment when the login is refused, or answers without a token.\<close>

definition refusing_world :: world where
  "refusing_world =
     demo_world\<lparr>loginReply :=
       (\<lambda>url jwt rl a. (120, Rejected ''Request failed with status code 403'' (Some ''{errors:[permission denied]}'')))\<rparr>"

definition malformed_response :: login_response where
  "malformed_response = \<lparr>data = Some \<lparr>auth = None\<rparr>, data_json = ''{errors:[]}''\<rparr>"

definition malformed_world :: world where
  "malformed_world =
     demo_world\<lparr>loginReply := (\<lambda>url jwt rl a. (120, Resolved (Some malformed_response)))\<rparr>"

text \<open>An instance whose token has expired, with a policy that returns a fallback value.\<close>

definition stale_vault :: vault where
  "stale_vault =
     demo_vault\<lparr>token := ''stale'', tokenExpiresAt := Num 1699999000000,
       errorHandler := (\<lambda>m. Inr (VStr ''fallback''))\<rparr>"

text \<open>Scenario A: the same deployment constructed with the static token \<^verbatim>\<open>t-123\<close>.\<close>

definition static_config :: config where
  "static_config = demo_config\<lparr>c_token := Some ''t-123''\<rparr>"

definition static_vault :: vault where
  "static_vault = demo_vault\<lparr>token := ''t-123'', tokenExpiresAt := Num 1702678400000\<rparr>"

text \<open>A configuration naming an auth method this module does not have.\<close>

definition ldap_config :: config where
  "ldap_config = demo_config\<lparr>c_authMethod := Some (MethodName ''ldap'')\<rparr>"

text \<open>
  The request of scenario A, and the same request with a caller-supplied
  \<^verbatim>\<open>X-Vault-Token\<close> header.
\<close>

definition demo_params :: params where
  "demo_params =
     \<lparr>p_baseURL = None, p_method = Some ''get'', p_httpsAgent = None,
      p_url = Some ''/secret/data/x'', p_data = None, p_headers = None\<rparr>"

definition override_params :: params where
  "override_params = demo_params\<lparr>p_headers := Some [''X-Vault-Token'' \<mapsto> VStr ''mine'']\<rparr>"

text \<open>
  The same deployment when the login answers with an empty token, or with a token but no
  lease duration.
\<close>

definition empty_token_response :: login_response where
  "empty_token_response =
     \<lparr>data = Some \<lparr>auth = Some \<lparr>client_token = Some [], lease_duration = Some 3600\<rparr>\<rparr>,
      data_json = ''{auth:{client_token:,lease_duration:3600}}''\<rparr>"

definition empty_token_world :: world where
  "empty_token_world =
     demo_world\<lparr>loginReply := (\<lambda>url jwt rl a. (120, Resolved (Some empty_token_response)))\<rparr>"

definition leaseless_response :: login_response where
  "leaseless_response =
     \<lparr>data = Some \<lparr>auth = Some \<lparr>client_token = Some ''tok-1'', lease_duration = None\<rparr>\<rparr>,
      data_json = ''{auth:{client_token:tok-1}}''\<rparr>"

definition leaseless_world :: world where
  "leaseless_world =
     demo_world\<lparr>loginReply := (\<lambda>url jwt rl a. (120, Resolved (Some leaseless_response)))\<rparr>"

text \<open>
  The same deployment with \<^verbatim>\<open>VAULT_TOKEN\<close> set, the instance a construction without a
  token then yields, and the deployment with its clock set before 1970.
\<close>

definition token_env_world :: world where
  "token_env_world = demo_world\<lparr>env := [''VAULT_TOKEN'' \<mapsto> ''envtok'']\<rparr>"

definition env_vault :: vault where
  "env_vault = demo_vault\<lparr>token := ''envtok'', tokenExpiresAt := Num 1702678400000\<rparr>"

definition early_world :: world where
  "early_world = demo_world\<lparr>now := - 30001\<rparr>"

text \<open>
  The same deployment configured with a caller-supplied auth function and the empty
  static token.
\<close>

definition custom_auth :: auth_function where
  "custom_auth opts fl w =
     (Inr (VStr ''custom-token''),
      fl\<lparr>token := ''custom-token'', tokenExpiresAt := Num (now w + 60000)\<rparr>,
      w)"

definition custom_config :: config where
  "custom_config =
     demo_config\<lparr>c_token := Some [], c_authMethod := Some (MethodFunction custom_auth)\<rparr>"

definition custom_vault :: vault where
  "custom_vault = demo_vault\<lparr>authMethod := MethodFunction custom_auth\<rparr>"

section \<open>Properties\<close>

subsection \<open>Numbers\<close>

lemma to_double_exact: "\<bar>x\<bar> < 2 ^ 53 \<Longrightarrow> to_double x = Num x"
  by (simp add: to_double_def)

text \<open>
  Line 70 on a lease duration whose product and sum stay below \<open>2 ^ 53\<close>: the arithmetic
  is exact.
\<close>

lemma expiry_exact:
  assumes "\<bar>l * 1000\<bar> < 2 ^ 53" and "\<bar>n + l * 1000\<bar> < 2 ^ 53"
  shows "num_add (Num n) (num_mul (to_number (Some l)) (Num 1000)) = Num (n + l * 1000)"
proof -
  have "\<bar>l\<bar> \<le> \<bar>l * 1000\<bar>" by (simp add: abs_mult)
  with assms(1) have "\<bar>l\<bar> < 2 ^ 53" by linarith
  then have "to_number (Some l) = Num l" by (simp add: to_double_exact)
  with assms show ?thesis by (simp add: to_double_exact)
qed

text \<open>
  An integer of magnitude \<open>2 ^ 53\<close> or more rounds to a double of such a magnitude, or to
  an infinity, of the same sign.
\<close>

lemma to_double_large:
  assumes "2 ^ 53 \<le> \<bar>x\<bar>"
  shows "\<exists>y. 2 ^ 53 \<le> y \<and>
           to_double x =
             (if y \<ge> 2 ^ 1024 then (if x < 0 then NegInfinity else Infinity)
              else Num (if x < 0 then - y else y))"
proof -
  define a where "a = \<bar>x\<bar>"
  define e where "e = nat (bitlen a - 53)"
  define q where "q = a div 2 ^ e"
  define q' where "q' = (if 2 * (a mod 2 ^ e) > 2 ^ e \<or> (2 * (a mod 2 ^ e) = 2 ^ e \<and> odd q) then q + 1 else q)"
  from assms have a53: "2 ^ 53 \<le> a" by (simp add: a_def)
  then have a0: "0 < a" by (smt (verit) zero_less_power)
  from bitlen_bounds[OF a0] have lo: "2 ^ nat (bitlen a - 1) \<le> a" and hi: "a < 2 ^ nat (bitlen a)"
    by simp_all
  from a53 hi have "(2::int) ^ 53 < 2 ^ nat (bitlen a)" by linarith
  then have "53 < nat (bitlen a)" by (rule power_less_imp_less_exp[rotated]) simp
  then have n1: "nat (bitlen a - 1) = e + 52" and e1: "1 \<le> e"
    by (simp_all add: e_def)
  from lo n1 have "2 ^ 52 * 2 ^ e \<le> a" by (simp add: power_add mult.commute)
  then have "(2 ^ 52 * 2 ^ e) div 2 ^ e \<le> a div 2 ^ e"
    by (intro zdiv_mono1) simp_all
  then have q52: "2 ^ 52 \<le> q" by (simp add: q_def)
  then have "2 ^ 52 \<le> q'" by (simp add: q'_def)
  moreover have "(2::int) \<le> 2 ^ e" using e1
    by (metis power_increasing one_le_numeral power_one_right)
  ultimately have "(2 ^ 52) * 2 \<le> q' * 2 ^ e"
    by (intro mult_mono) simp_all
  then have y53: "2 ^ 53 \<le> q' * 2 ^ e" by simp
  from assms have nb: "\<not> \<bar>x\<bar> < 2 ^ 53" by simp
  have "to_double x =
             (if q' * 2 ^ e \<ge> 2 ^ 1024 then (if x < 0 then NegInfinity else Infinity)
              else Num (if x < 0 then - (q' * 2 ^ e) else q' * 2 ^ e))"
    unfolding q'_def q_def e_def a_def to_double_def Let_def
    by (simp only: nb if_False)
  with y53 show ?thesis by blast
qed

text \<open>
  The test of line 166 subtracts the renewal cliff on doubles. For every clock
  \<^verbatim>\<open>Date.now()\<close> can show, the test on the rounded difference and the test on the exact
  difference agree, so that \<open>num_sub\<close> takes the difference exactly.
\<close>

lemma rounded_difference_same_test:
  assumes "\<bar>n\<bar> \<le> 8640000000000000"
  shows "num_gt (to_double (e - 30000)) (Num n) = num_gt (num_sub (Num e) (Num 30000)) (Num n)"
proof (cases "\<bar>e - 30000\<bar> < 2 ^ 53")
  case True
  then show ?thesis by (simp add: to_double_exact)
next
  case False
  then have "2 ^ 53 \<le> \<bar>e - 30000\<bar>" by simp
  from to_double_large[OF this] obtain y where y: "2 ^ 53 \<le> y"
    and d: "to_double (e - 30000) =
             (if y \<ge> 2 ^ 1024 then (if e - 30000 < 0 then NegInfinity else Infinity)
              else Num (if e - 30000 < 0 then - y else y))"
    by blast
  from assms have n: "n < 2 ^ 53" "- (2 ^ 53) < n" by simp_all
  show ?thesis
  proof (cases "e - 30000 < 0")
    case True
    with False have "e - 30000 \<le> - (2 ^ 53)" by simp
    with True d y n show ?thesis by auto
  next
    case pos: False
    with False have "2 ^ 53 \<le> e - 30000" by simp
    with pos d y n show ?thesis by auto
  qed
qed

text \<open>
  An expiry as line 70 computes it: a sum above \<open>2 ^ 53\<close>, rounded to even.
\<close>

lemma expiry_rounded_example:
  "num_add (Num 1700000000255) (num_mul (to_number (Some 9007199254740)) (Num 1000)) =
     Num 9008899254740256"
  by code_simp

subsection \<open>Time, the file system and the agent\<close>

lemma elapse_simps [simp]:
  "now (elapse d w) = now w + int d"
  "env (elapse d w) = env w"
  "fs (elapse d w) = fs w"
  "readTime (elapse d w) = readTime w"
  "loginReply (elapse d w) = loginReply w"
  "requestReply (elapse d w) = requestReply w"
  by (simp_all add: elapse_def)

lemma elapse_elapse: "elapse a (elapse b w) = elapse (b + a) w"
  by (simp add: elapse_def)

lemma elapse_0: "elapse 0 w = w"
  by (simp add: elapse_def)

lemma readFileAsync_world: "readFileAsync p w = (r, w') \<Longrightarrow> w' = elapse (readTime w p) w"
  by (auto simp: readFileAsync_def split: option.splits fsnode.splits)

lemma agent_only_refl [simp]: "agent_only v v"
  by (simp add: agent_only_def)

lemma agent_only_update [simp]: "agent_only v (v\<lparr>httpsAgent := a\<rparr>)"
  by (simp add: agent_only_def)

lemma agent_only_fields:
  assumes "agent_only v v'"
  shows "baseUrl v' = baseUrl v" "sslCertPath v' = sslCertPath v"
    "ignoreSslCertCheck v' = ignoreSslCertCheck v" "token v' = token v"
    "tokenExpiresAt v' = tokenExpiresAt v" "errorHandler v' = errorHandler v"
    "authMethod v' = authMethod v" "authOptions v' = authOptions v"
proof -
  from assms have e: "v'\<lparr>httpsAgent := None\<rparr> = v\<lparr>httpsAgent := None\<rparr>"
    by (simp add: agent_only_def)
  from arg_cong[OF e, of baseUrl] show "baseUrl v' = baseUrl v" by simp
  from arg_cong[OF e, of sslCertPath] show "sslCertPath v' = sslCertPath v" by simp
  from arg_cong[OF e, of ignoreSslCertCheck] show "ignoreSslCertCheck v' = ignoreSslCertCheck v" by simp
  from arg_cong[OF e, of token] show "token v' = token v" by simp
  from arg_cong[OF e, of tokenExpiresAt] show "tokenExpiresAt v' = tokenExpiresAt v" by simp
  from arg_cong[OF e, of errorHandler] show "errorHandler v' = errorHandler v" by simp
  from arg_cong[OF e, of authMethod] show "authMethod v' = authMethod v" by simp
  from arg_cong[OF e, of authOptions] show "authOptions v' = authOptions v" by simp
qed

text \<open>
  \<^verbatim>\<open>getHttpsAgent\<close> changes nothing of the instance but the memoized agent, lets some
  time pass, and reads at most the CA file.
\<close>

lemma getHttpsAgent_cases:
  assumes "getHttpsAgent v w = (r, v', w', tr)"
  shows "agent_only v v' \<and> (\<exists>d. w' = elapse d w)
         \<and> (tr = [] \<or> tr = [EvReadFile (sslCertPath v)])"
proof (cases "httpsAgent v")
  case (Some a)
  with assms have "v' = v" "w' = w" "tr = []" by (auto simp: getHttpsAgent_def)
  then show ?thesis using elapse_0 by (metis agent_only_refl)
next
  case None
  show ?thesis
  proof (cases "ignoreSslCertCheck v")
    case True
    with None assms have "v' = v\<lparr>httpsAgent := Some (Agent None False)\<rparr>" "w' = w" "tr = []"
      by (auto simp: getHttpsAgent_def)
    then show ?thesis using elapse_0 by (metis agent_only_update)
  next
    case False
    obtain r0 w0 where rd: "readFileAsync (sslCertPath v) w = (r0, w0)" by force
    then have w0: "w0 = elapse (readTime w (sslCertPath v)) w" by (rule readFileAsync_world)
    from None False assms rd have "w' = w0" "tr = [EvReadFile (sslCertPath v)]" "agent_only v v'"
      by (auto simp: getHttpsAgent_def split: sum.splits)
    with w0 show ?thesis by blast
  qed
qed

subsection \<open>The login attempt and the \<^verbatim>\<open>kubernetes\<close> method\<close>

text \<open>
  The \<^verbatim>\<open>try\<close> block changes nothing of the instance but the memoized agent; it
  neither invokes a strategy nor calls the policy nor issues a data request.
\<close>

lemma loginAttempt_cases:
  assumes "loginAttempt path rl v w = (r, v', w', tr)"
  shows "agent_only v v' \<and> (\<exists>d. w' = elapse d w)
         \<and> filter is_auth tr = [] \<and> filter is_handler tr = []
         \<and> (\<forall>out. EvRequest out \<notin> set tr)"
proof -
  obtain r0 w0 where rd: "readFileAsync path w = (r0, w0)" by force
  then have w0: "w0 = elapse (readTime w path) w" by (rule readFileAsync_world)
  obtain ra va wa tra where ag: "getHttpsAgent v w0 = (ra, va, wa, tra)" by (metis prod_cases4)
  from getHttpsAgent_cases[OF ag] obtain d where
    va: "agent_only v va" and wa: "wa = elapse d w0"
    and tra: "tra = [] \<or> tra = [EvReadFile (sslCertPath v)]" by blast
  show ?thesis
  proof (cases r0)
    case (Inl e)
    with assms rd have "v' = v" "w' = w0" "tr = [EvReadFile path]"
      by (auto simp: loginAttempt_def)
    with w0 show ?thesis by auto
  next
    case (Inr jwt)
    show ?thesis
    proof (cases ra)
      case (Inl e)
      with assms rd ag Inr have "v' = va" "w' = wa" "tr = EvReadFile path # tra"
        by (auto simp: loginAttempt_def)
      with va wa w0 tra show ?thesis by (auto simp: elapse_elapse)
    next
      case (Inr ag')
      obtain d' pr where lr: "loginReply wa (loginUrl v) jwt rl ag' = (d', pr)" by force
      with assms rd ag Inr \<open>r0 = Inr jwt\<close>
      have "v' = va" "w' = elapse d' wa" "tr = EvReadFile path # tra @ [EvPost (loginUrl v) jwt rl ag']"
        by (auto simp: loginAttempt_def split: post_result.splits)
      with va wa w0 tra show ?thesis by (auto simp: elapse_elapse)
    qed
  qed
qed

lemma handleAndReturnToken_parts [simp]:
  "trace (handleAndReturnToken v w tr msg) = tr @ [EvHandler msg]"
  "vault_of (handleAndReturnToken v w tr msg) = v"
  "world_of (handleAndReturnToken v w tr msg) = w"
  "outcome (handleAndReturnToken v w tr msg) =
     (case errorHandler v msg of Inl e \<Rightarrow> Inl e | Inr x \<Rightarrow> Inr (VStr (token v)))"
  by (simp_all add: handleAndReturnToken_def trace_def vault_of_def world_of_def outcome_def
      split: sum.splits)

lemma loginSuccess_parts [simp]:
  "trace (loginSuccess v w tr t lease) = tr"
  "world_of (loginSuccess v w tr t lease) = w"
  "outcome (loginSuccess v w tr t lease) = Inr (VStr t)"
  "vault_of (loginSuccess v w tr t lease) =
     v\<lparr>token := t, tokenExpiresAt := num_add (Num (now w)) (num_mul (to_number lease) (Num 1000))\<rparr>"
  by (simp_all add: loginSuccess_def trace_def vault_of_def world_of_def outcome_def)

lemma loginResolved_trace:
  "trace (loginResolved v w tr resp) = tr \<or>
   (\<exists>m. trace (loginResolved v w tr resp) = tr @ [EvHandler m])"
  by (simp add: loginResolved_def trace_def[of "(a, b, c, d)" for a b c d] split: option.splits)

lemma kubernetes_missing_file:
  "fs w (eff_path opts w) = None \<Longrightarrow>
   kubernetes opts v w =
     (Inl (Error (''serviceAccountTokenPath: file not found '' @ eff_path opts w)), v, w, [])"
  by (simp add: kubernetes_def existsSync_def)

text \<open>
  When the credential file exists, the method is the login attempt followed by one of
  its two continuations.
\<close>

lemma kubernetes_existing_file:
  assumes "fs w (eff_path opts w) \<noteq> None"
    and "loginAttempt (eff_path opts w) (eff_role opts w) v w = (r, v2, w2, tr)"
  shows "kubernetes opts v w =
     (case r of
        Inl (Caught m srv) \<Rightarrow> handleAndReturnToken v2 w2 tr (refreshError v2 m srv)
      | Inr resp \<Rightarrow> loginResolved v2 w2 tr resp)"
  using assms by (simp add: kubernetes_def existsSync_def split: sum.splits caught.splits)

lemma kubernetes_trace:
  "filter is_auth (trace (kubernetes opts v w)) = [] \<and>
   (\<forall>out. EvRequest out \<notin> set (trace (kubernetes opts v w)))"
proof (cases "fs w (eff_path opts w) = None")
  case True
  then show ?thesis by (simp add: kubernetes_missing_file trace_def)
next
  case False
  obtain r v2 w2 tr where la: "loginAttempt (eff_path opts w) (eff_role opts w) v w = (r, v2, w2, tr)"
    by (metis prod_cases4)
  from loginAttempt_cases[OF la]
  have tr: "filter is_auth tr = []" "\<forall>out. EvRequest out \<notin> set tr" by simp_all
  show ?thesis
  proof (cases r)
    case (Inl c)
    with tr show ?thesis
      by (cases c) (simp add: kubernetes_existing_file[OF False la])
  next
    case (Inr resp)
    with tr loginResolved_trace[of v2 w2 tr resp] show ?thesis
      by (auto simp: kubernetes_existing_file[OF False la])
  qed
qed

lemma auth_closure_once:
  "\<not> unsupported (authMethod v) \<Longrightarrow> length (filter is_auth (trace (auth_closure v w))) = 1"
  using kubernetes_trace[of "authOptions v" v w]
  by (auto simp: auth_closure_def trace_def split: auth_method.splits prod.splits)

lemma getToken_eq:
  "getToken v w =
     (if renewal_not_due v w then (Inr (VStr (token v)), v, w, []) else auth_closure v w)"
  by (cases "tokenExpiresAt v")
    (auto simp: getToken_def renewal_not_due_def tokenRenewalCliff_def)

lemma constructor_supported:
  "constructor cfg w = Inr v \<Longrightarrow> \<not> unsupported (authMethod v)"
  by (auto simp: constructor_def split: if_splits)

lemmas demo_defs = demo_world_def demo_vault_def demo_config_def demo_response_def

lemmas default_defs =
  eff_authMethod_def getAuthMethod_def env_or_def existsSync_def eff_sslCertPath_def
  getSslCertPath_def eff_ignoreSslCertCheck_def getIgnoreSslCertCheck_def eff_baseUrl_def
  getBaseUrl_def eff_token_def getTokenDefault_def eff_errorHandler_def eff_authOptions_def
  eff_path_def eff_role_def getAuthServiceAccountPath_def getAuthRole_def

lemma demo_constructed: "constructor demo_config demo_world = Inr demo_vault"
  by (simp add: constructor_def demo_defs default_defs strip_scheme_def strip_trailing_slash_def)

lemma static_constructed: "constructor static_config demo_world = Inr static_vault"
  by (simp add: constructor_def static_config_def static_vault_def demo_defs default_defs
      strip_scheme_def strip_trailing_slash_def staticTokenHorizon_def)

subsection \<open>The renewal decision of \<^verbatim>\<open>getToken\<close>\<close>



subsection \<open>The outcomes of the \<^verbatim>\<open>kubernetes\<close> method\<close>

text \<open>
  C4. Whenever the file at \<^verbatim>\<open>serviceAccountTokenPath\<close> (after its default) does not
  exist, the \<^verbatim>\<open>kubernetes\<close> method throws its own error at once: the instance and the
  clock are as before, and the trace is empty, so that no file was read, no login was
  posted and the error-handling policy was not called; the error is the same under
  every policy.
\<close>

theorem kubernetes_missing_credential_file:
  assumes "fs w (eff_path opts w) = None"
  shows "kubernetes opts v w =
           (Inl (Error (''serviceAccountTokenPath: file not found '' @ eff_path opts w)), v, w, [])
    \<and> filter is_network (trace (kubernetes opts v w)) = []
    \<and> filter is_handler (trace (kubernetes opts v w)) = []
    \<and> (\<forall>h. outcome (kubernetes opts (v\<lparr>errorHandler := h\<rparr>) w) = outcome (kubernetes opts v w))"
  using assms by (simp add: kubernetes_missing_file trace_def outcome_def)

theorem kubernetes_missing_credential_file_witness:
  "fs (demo_world\<lparr>fs := Map.empty\<rparr>) (eff_path (authOptions demo_vault) (demo_world\<lparr>fs := Map.empty\<rparr>)) = None
   \<and> kubernetes (authOptions demo_vault) demo_vault (demo_world\<lparr>fs := Map.empty\<rparr>) =
       (Inl (Error ''serviceAccountTokenPath: file not found /var/run/secrets/kubernetes.io/serviceaccount/token''),
        demo_vault, demo_world\<lparr>fs := Map.empty\<rparr>, [])"
proof -
  have h: "fs (demo_world\<lparr>fs := Map.empty\<rparr>)
             (eff_path (authOptions demo_vault) (demo_world\<lparr>fs := Map.empty\<rparr>)) = None"
    by simp
  have p: "eff_path (authOptions demo_vault) (demo_world\<lparr>fs := Map.empty\<rparr>) =
             ''/var/run/secrets/kubernetes.io/serviceaccount/token''"
    by (simp add: demo_defs default_defs)
  show ?thesis
    using kubernetes_missing_credential_file [OF h, of demo_vault] h p by simp
qed

text \<open>
  A login attempt yields a response exactly as the result of a resolved \<^verbatim>\<open>post\<close>: the
  credential file was read, the agent obtained, and the clock is then the clock of the
  invocation plus the time the reads and the exchange took.
\<close>

lemma loginAttempt_resolved:
  assumes "loginAttempt path rl v w = (Inr resp, v2, w2, tr)"
  shows "\<exists>jwt a d.
           fs w path = Some (File jwt)
         \<and> outcome (getHttpsAgent v (elapse (readTime w path) w)) = Inr a
         \<and> v2 = vault_of (getHttpsAgent v (elapse (readTime w path) w))
         \<and> loginReply (world_of (getHttpsAgent v (elapse (readTime w path) w))) (loginUrl v) jwt rl a
             = (d, Resolved resp)
         \<and> w2 = elapse d (world_of (getHttpsAgent v (elapse (readTime w path) w)))"
proof -
  obtain r0 w0 where rd: "readFileAsync path w = (r0, w0)" by force
  then have w0: "w0 = elapse (readTime w path) w" by (rule readFileAsync_world)
  obtain ra va wa tra where ag: "getHttpsAgent v w0 = (ra, va, wa, tra)" by (metis prod_cases4)
  from assms rd obtain jwt where jwt: "r0 = Inr jwt"
    by (cases r0) (auto simp: loginAttempt_def)
  with rd have f: "fs w path = Some (File jwt)"
    by (auto simp: readFileAsync_def split: option.splits fsnode.splits)
  from assms rd jwt ag obtain a where a: "ra = Inr a"
    by (cases ra) (auto simp: loginAttempt_def)
  obtain d pr where lr: "loginReply wa (loginUrl v) jwt rl a = (d, pr)" by force
  with assms rd jwt ag a have "pr = Resolved resp" "v2 = va" "w2 = elapse d wa"
    by (cases pr; simp add: loginAttempt_def)+
  with f a ag lr w0 show ?thesis
    by (auto simp: outcome_def vault_of_def world_of_def)
qed

lemma loginAttempt_world:
  "loginAttempt path rl v w = (r, v2, w2, tr) \<Longrightarrow> \<exists>d. w2 = elapse d w"
  using loginAttempt_cases by blast

lemma loginResolved_success:
  assumes "data r = Some d" "auth d = Some a" "client_token a = Some t" "t \<noteq> []"
  shows "loginResolved v w tr (Some r) = loginSuccess v w tr t (lease_duration a)"
  using assms by (simp add: loginResolved_def)

lemma loginResolved_missing_token:
  assumes "missing_token r"
  shows "loginResolved v w tr (Some r) = handleAndReturnToken v w tr (unrecognizedError r)"
  using assms by (auto simp: loginResolved_def missing_token_def split: option.splits)

text \<open>
  A response with a token but without a lease duration passes the check of line 64: the
  token is stored, the expiry is \<^verbatim>\<open>NaN\<close>, and renewal is due at every later call.
\<close>

lemma loginResolved_missing_lease:
  assumes "data r = Some d" "auth d = Some a" "client_token a = Some t" "t \<noteq> []"
    and "lease_duration a = None"
  shows "token (vault_of (loginResolved v w tr (Some r))) = t"
    and "tokenExpiresAt (vault_of (loginResolved v w tr (Some r))) = NaN"
    and "\<not> renewal_not_due (vault_of (loginResolved v w tr (Some r))) w'"
  using assms by (simp_all add: loginResolved_success renewal_not_due_def)

lemmas run_defs = loginAttempt_def readFileAsync_def getHttpsAgent_def loginUrl_def

lemma demo_attempt:
  "loginAttempt (eff_path (authOptions demo_vault) demo_world) (eff_role (authOptions demo_vault) demo_world)
     demo_vault demo_world =
   (Inr (Some demo_response), demo_vault\<lparr>httpsAgent := Some (Agent (Some ''CA'') True)\<rparr>,
    elapse 254 demo_world,
    [EvReadFile ''/var/run/secrets/kubernetes.io/serviceaccount/token'',
     EvReadFile ''/var/run/secrets/vault/ca.crt'',
     EvPost ''https://vault.local:8200/v1/auth/kubernetes/login'' ''jwt-abc'' ''blockchain''
       (Agent (Some ''CA'') True)])"
  by (simp add: run_defs demo_world_def demo_vault_def default_defs elapse_def)

text \<open>
  C2 (as amended). When the credential file exists and the login attempt resolves with a
  response carrying a non-empty \<^verbatim>\<open>auth.client_token\<close> and an \<^verbatim>\<open>auth.lease_duration\<close>,
  the \<^verbatim>\<open>kubernetes\<close> method returns that token and updates both fields: the stored
  token is the returned one, and the stored expiry is \<^verbatim>\<open>Date.now() + lease_duration * 1000\<close>
  as line 70 computes it on doubles, with the clock read at the moment the response is
  processed (the invocation time plus the time the reads and the exchange took, which is
  also the time at which the method returns). Whenever the product and the sum are below
  \<open>2 ^ 53\<close> in magnitude, that is exactly this clock plus \<^verbatim>\<open>lease_duration * 1000\<close>. The
  policy is not called.
\<close>

theorem kubernetes_login_success:
  assumes "fs w (eff_path opts w) \<noteq> None"
    and "loginAttempt (eff_path opts w) (eff_role opts w) v w = (Inr (Some r), v2, w2, tr)"
    and "data r = Some d" "auth d = Some a"
    and "client_token a = Some t" "t \<noteq> []" "lease_duration a = Some l"
  shows "outcome (kubernetes opts v w) = Inr (VStr t)
    \<and> token (vault_of (kubernetes opts v w)) = t
    \<and> tokenExpiresAt (vault_of (kubernetes opts v w)) =
         num_add (Num (now w2)) (num_mul (to_number (Some l)) (Num 1000))
    \<and> (\<bar>l * 1000\<bar> < 2 ^ 53 \<and> \<bar>now w2 + l * 1000\<bar> < 2 ^ 53 \<longrightarrow>
          tokenExpiresAt (vault_of (kubernetes opts v w)) = Num (now w2 + l * 1000))
    \<and> world_of (kubernetes opts v w) = w2
    \<and> (\<exists>n. w2 = elapse n w)
    \<and> filter is_handler (trace (kubernetes opts v w)) = []"
proof -
  have k: "kubernetes opts v w = loginSuccess v2 w2 tr t (Some l)"
    using kubernetes_existing_file[OF assms(1,2)] loginResolved_success[OF assms(3-6)] assms(7)
    by simp
  from loginAttempt_cases[OF assms(2)]
  have n: "\<exists>n. w2 = elapse n w" and h: "filter is_handler tr = []" by simp_all
  have x: "tokenExpiresAt (vault_of (kubernetes opts v w)) =
         num_add (Num (now w2)) (num_mul (to_number (Some l)) (Num 1000))"
    by (simp only: k loginSuccess_parts) simp
  have b: "tokenExpiresAt (vault_of (kubernetes opts v w)) = Num (now w2 + l * 1000)"
    if "\<bar>l * 1000\<bar> < 2 ^ 53 \<and> \<bar>now w2 + l * 1000\<bar> < 2 ^ 53"
    using that by (simp only: x expiry_exact)
  have o: "outcome (kubernetes opts v w) = Inr (VStr t)"
    "token (vault_of (kubernetes opts v w)) = t"
    "world_of (kubernetes opts v w) = w2"
    "filter is_handler (trace (kubernetes opts v w)) = []"
    using h by (simp_all add: k)
  from o x b n show ?thesis by blast
qed

lemma stale_empty_attempt:
  "loginAttempt (eff_path (authOptions stale_vault) empty_token_world)
     (eff_role (authOptions stale_vault) empty_token_world) stale_vault empty_token_world =
   (Inr (Some empty_token_response),
    stale_vault\<lparr>httpsAgent := Some (Agent (Some ''CA'') True)\<rparr>,
    elapse 124 empty_token_world,
    [EvReadFile ''/var/run/secrets/kubernetes.io/serviceaccount/token'',
     EvReadFile ''/var/run/secrets/vault/ca.crt'',
     EvPost ''https://vault.local:8200/v1/auth/kubernetes/login'' ''jwt-abc'' ''blockchain''
       (Agent (Some ''CA'') True)])"
  by (simp add: run_defs empty_token_world_def stale_vault_def demo_world_def demo_vault_def
      default_defs elapse_def)

text \<open>
  C2 as stated fails in two ways. With the expiry counted from the invocation time, it
  fails as soon as the login takes time: in the concrete deployment the two file reads
  take 2 ms each and the exchange 250 ms, and the stored expiry is 254 ms later than the
  invocation time plus the lease. And a response that carries an empty
  \<^verbatim>\<open>auth.client_token\<close> next to its \<^verbatim>\<open>auth.lease_duration\<close> updates nothing: the stored
  token and expiry stay as they were and the policy is called.
\<close>

theorem kubernetes_expiry_counterexample:
  "outcome (kubernetes (authOptions demo_vault) demo_vault demo_world) = Inr (VStr ''tok-1'')
   \<and> tokenExpiresAt (vault_of (kubernetes (authOptions demo_vault) demo_vault demo_world))
       = Num (now demo_world + 254 + 3600 * 1000)
   \<and> tokenExpiresAt (vault_of (kubernetes (authOptions demo_vault) demo_vault demo_world))
       \<noteq> Num (now demo_world + 3600 * 1000)
   \<and> data empty_token_response =
       Some \<lparr>auth = Some \<lparr>client_token = Some [], lease_duration = Some 3600\<rparr>\<rparr>
   \<and> token (vault_of (kubernetes (authOptions stale_vault) stale_vault empty_token_world)) = ''stale''
   \<and> tokenExpiresAt (vault_of (kubernetes (authOptions stale_vault) stale_vault empty_token_world))
       = Num 1699999000000
   \<and> filter is_handler (trace (kubernetes (authOptions stale_vault) stale_vault empty_token_world))
       = [EvHandler ''Vault auth: unrecognized response: {auth:{client_token:,lease_duration:3600}}'']"
proof -
  have e: "fs demo_world (eff_path (authOptions demo_vault) demo_world) \<noteq> None"
    by (simp add: demo_world_def demo_vault_def default_defs)
  have k: "kubernetes (authOptions demo_vault) demo_vault demo_world =
          loginSuccess (demo_vault\<lparr>httpsAgent := Some (Agent (Some ''CA'') True)\<rparr>) (elapse 254 demo_world)
            [EvReadFile ''/var/run/secrets/kubernetes.io/serviceaccount/token'',
             EvReadFile ''/var/run/secrets/vault/ca.crt'',
             EvPost ''https://vault.local:8200/v1/auth/kubernetes/login'' ''jwt-abc'' ''blockchain''
               (Agent (Some ''CA'') True)] ''tok-1'' (Some 3600)"
    by (simp add: kubernetes_existing_file[OF e demo_attempt] loginResolved_def demo_response_def)
  have x: "num_add (Num (now (elapse 254 demo_world))) (num_mul (to_number (Some 3600)) (Num 1000)) =
      Num (now (elapse 254 demo_world) + 3600 * 1000)"
    by (rule expiry_exact) (simp_all add: demo_world_def)
  have 1: "outcome (kubernetes (authOptions demo_vault) demo_vault demo_world) = Inr (VStr ''tok-1'')"
    by (simp add: k)
  have 2: "tokenExpiresAt (vault_of (kubernetes (authOptions demo_vault) demo_vault demo_world))
       = Num (now demo_world + 254 + 3600 * 1000)"
    by (simp only: k loginSuccess_parts x) simp
  have se: "fs empty_token_world (eff_path (authOptions stale_vault) empty_token_world) \<noteq> None"
    by (simp add: empty_token_world_def stale_vault_def demo_world_def demo_vault_def default_defs)
  have m: "missing_token empty_token_response"
    by (simp add: missing_token_def empty_token_response_def)
  have sk: "kubernetes (authOptions stale_vault) stale_vault empty_token_world =
      handleAndReturnToken (stale_vault\<lparr>httpsAgent := Some (Agent (Some ''CA'') True)\<rparr>)
        (elapse 124 empty_token_world)
        [EvReadFile ''/var/run/secrets/kubernetes.io/serviceaccount/token'',
         EvReadFile ''/var/run/secrets/vault/ca.crt'',
         EvPost ''https://vault.local:8200/v1/auth/kubernetes/login'' ''jwt-abc'' ''blockchain''
           (Agent (Some ''CA'') True)]
        (unrecognizedError empty_token_response)"
    by (simp add: kubernetes_existing_file[OF se stale_empty_attempt] loginResolved_missing_token[OF m])
  have u: "unrecognizedError empty_token_response =
      ''Vault auth: unrecognized response: {auth:{client_token:,lease_duration:3600}}''"
    by (simp add: unrecognizedError_def empty_token_response_def)
  have d: "data empty_token_response =
       Some \<lparr>auth = Some \<lparr>client_token = Some [], lease_duration = Some 3600\<rparr>\<rparr>"
    by (simp add: empty_token_response_def)
  have tv: "token stale_vault = ''stale''" "tokenExpiresAt stale_vault = Num 1699999000000"
    by (simp_all add: stale_vault_def)
  have 3: "token (vault_of (kubernetes (authOptions stale_vault) stale_vault empty_token_world)) = ''stale''"
    "tokenExpiresAt (vault_of (kubernetes (authOptions stale_vault) stale_vault empty_token_world))
       = Num 1699999000000"
    by (simp_all add: sk tv)
  have 4: "filter is_handler (trace (kubernetes (authOptions stale_vault) stale_vault empty_token_world))
       = [EvHandler ''Vault auth: unrecognized response: {auth:{client_token:,lease_duration:3600}}'']"
    by (simp only: sk handleAndReturnToken_parts u) simp
  from 1 2 d 3 4 show ?thesis by simp
qed

theorem kubernetes_login_success_witness:
  "fs demo_world (eff_path (authOptions demo_vault) demo_world) \<noteq> None
   \<and> client_token \<lparr>client_token = Some ''tok-1'', lease_duration = Some 3600\<rparr> = Some ''tok-1''
   \<and> \<bar>3600 * 1000\<bar> < (2 :: int) ^ 53
   \<and> \<bar>now (elapse 254 demo_world) + 3600 * 1000\<bar> < 2 ^ 53
   \<and> outcome (kubernetes (authOptions demo_vault) demo_vault demo_world) = Inr (VStr ''tok-1'')
   \<and> token (vault_of (kubernetes (authOptions demo_vault) demo_vault demo_world)) = ''tok-1''
   \<and> tokenExpiresAt (vault_of (kubernetes (authOptions demo_vault) demo_vault demo_world))
       = Num 1700003600254"
proof -
  have e: "fs demo_world (eff_path (authOptions demo_vault) demo_world) \<noteq> None"
    by (simp add: demo_world_def demo_vault_def default_defs)
  have d: "data demo_response =
             Some \<lparr>auth = Some \<lparr>client_token = Some ''tok-1'', lease_duration = Some 3600\<rparr>\<rparr>"
    by (simp add: demo_response_def)
  have n: "now (elapse 254 demo_world) + 3600 * 1000 = 1700003600254"
    by (simp add: demo_world_def)
  have b: "\<bar>3600 * 1000\<bar> < (2 :: int) ^ 53" "\<bar>now (elapse 254 demo_world) + 3600 * 1000\<bar> < 2 ^ 53"
    by (simp_all add: demo_world_def)
  have a: "auth \<lparr>auth = Some \<lparr>client_token = Some ''tok-1'', lease_duration = Some 3600\<rparr>\<rparr> =
             Some \<lparr>client_token = Some ''tok-1'', lease_duration = Some 3600\<rparr>"
    by simp
  have c: "client_token \<lparr>client_token = Some ''tok-1'', lease_duration = Some 3600\<rparr> = Some ''tok-1''"
    by simp
  have l: "lease_duration \<lparr>client_token = Some ''tok-1'', lease_duration = Some 3600\<rparr> = Some 3600"
    by simp
  have t: "''tok-1'' \<noteq> []"
    by simp
  note th = kubernetes_login_success [OF e demo_attempt d a c t l]
  from th b have x: "tokenExpiresAt (vault_of (kubernetes (authOptions demo_vault) demo_vault demo_world))
       = Num (now (elapse 254 demo_world) + 3600 * 1000)"
    by blast
  from th have y: "outcome (kubernetes (authOptions demo_vault) demo_vault demo_world) = Inr (VStr ''tok-1'')"
    "token (vault_of (kubernetes (authOptions demo_vault) demo_vault demo_world)) = ''tok-1''"
    by blast+
  from e c b x y n show ?thesis by simp
qed

lemma malformed_attempt:
  "loginAttempt (eff_path (authOptions demo_vault) malformed_world)
     (eff_role (authOptions demo_vault) malformed_world) demo_vault malformed_world =
   (Inr (Some malformed_response), demo_vault\<lparr>httpsAgent := Some (Agent (Some ''CA'') True)\<rparr>,
    elapse 124 malformed_world,
    [EvReadFile ''/var/run/secrets/kubernetes.io/serviceaccount/token'',
     EvReadFile ''/var/run/secrets/vault/ca.crt'',
     EvPost ''https://vault.local:8200/v1/auth/kubernetes/login'' ''jwt-abc'' ''blockchain''
       (Agent (Some ''CA'') True)])"
  by (simp add: run_defs malformed_world_def demo_world_def demo_vault_def default_defs elapse_def)

text \<open>
  C5 (as amended). When the credential file exists and the login attempt resolves with a
  response that lacks the token (no \<^verbatim>\<open>data\<close>, no \<^verbatim>\<open>data.auth\<close>, no or an empty
  \<^verbatim>\<open>data.auth.client_token\<close>), the \<^verbatim>\<open>kubernetes\<close> method leaves the stored token and
  the stored expiry as they were (only the memoized agent may differ), and calls the
  error-handling policy, once and as its last effect, with the message
  \<^verbatim>\<open>Vault auth: unrecognized response: \<close> followed by the text of the response data;
  it raises what the policy raises, and otherwise returns the cached token.
\<close>

theorem kubernetes_malformed_response:
  assumes "fs w (eff_path opts w) \<noteq> None"
    and "loginAttempt (eff_path opts w) (eff_role opts w) v w = (Inr (Some r), v2, w2, tr)"
    and "missing_token r"
  shows "token (vault_of (kubernetes opts v w)) = token v
    \<and> tokenExpiresAt (vault_of (kubernetes opts v w)) = tokenExpiresAt v
    \<and> agent_only v (vault_of (kubernetes opts v w))
    \<and> trace (kubernetes opts v w) = tr @ [EvHandler (''Vault auth: unrecognized response: '' @ data_json r)]
    \<and> filter is_handler (trace (kubernetes opts v w)) =
         [EvHandler (''Vault auth: unrecognized response: '' @ data_json r)]
    \<and> outcome (kubernetes opts v w) =
         (case errorHandler v (''Vault auth: unrecognized response: '' @ data_json r) of
            Inl e \<Rightarrow> Inl e
          | Inr x \<Rightarrow> Inr (VStr (token v)))"
proof -
  have k: "kubernetes opts v w = handleAndReturnToken v2 w2 tr (unrecognizedError r)"
    using kubernetes_existing_file[OF assms(1,2)] loginResolved_missing_token[OF assms(3)]
    by simp
  from loginAttempt_cases[OF assms(2)]
  have a: "agent_only v v2" and h: "filter is_handler tr = []" by simp_all
  have m: "unrecognizedError r = ''Vault auth: unrecognized response: '' @ data_json r"
    by (simp only: unrecognizedError_def)
  show ?thesis
    unfolding k handleAndReturnToken_parts m [symmetric]
    using a h agent_only_fields[OF a] by (simp split: sum.splits)
qed


theorem kubernetes_malformed_response_witness:
  "fs malformed_world (eff_path (authOptions demo_vault) malformed_world) \<noteq> None
   \<and> missing_token malformed_response
   \<and> token (vault_of (kubernetes (authOptions demo_vault) demo_vault malformed_world)) = []
   \<and> tokenExpiresAt (vault_of (kubernetes (authOptions demo_vault) demo_vault malformed_world)) = Num 0
   \<and> filter is_handler (trace (kubernetes (authOptions demo_vault) demo_vault malformed_world)) =
        [EvHandler ''Vault auth: unrecognized response: {errors:[]}'']
   \<and> outcome (kubernetes (authOptions demo_vault) demo_vault malformed_world) =
        Inl (Error ''ManageTeamVault module error: Vault auth: unrecognized response: {errors:[]}'')"
proof -
  have e: "fs malformed_world (eff_path (authOptions demo_vault) malformed_world) \<noteq> None"
    by (simp add: malformed_world_def demo_world_def demo_vault_def default_defs)
  have m: "missing_token malformed_response"
    by (simp add: missing_token_def malformed_response_def)
  have j: "data_json malformed_response = ''{errors:[]}''"
    by (simp add: malformed_response_def)
  have v: "token demo_vault = []" "tokenExpiresAt demo_vault = Num 0"
    "errorHandler demo_vault = getErrorHandler"
    by (simp_all add: demo_vault_def)
  show ?thesis
    using kubernetes_malformed_response [OF e malformed_attempt m] e m j v
    by (simp add: getErrorHandler_def)
qed

lemma leaseless_attempt:
  "loginAttempt (eff_path (authOptions demo_vault) leaseless_world)
     (eff_role (authOptions demo_vault) leaseless_world) demo_vault leaseless_world =
   (Inr (Some leaseless_response), demo_vault\<lparr>httpsAgent := Some (Agent (Some ''CA'') True)\<rparr>,
    elapse 124 leaseless_world,
    [EvReadFile ''/var/run/secrets/kubernetes.io/serviceaccount/token'',
     EvReadFile ''/var/run/secrets/vault/ca.crt'',
     EvPost ''https://vault.local:8200/v1/auth/kubernetes/login'' ''jwt-abc'' ''blockchain''
       (Agent (Some ''CA'') True)])"
  by (simp add: run_defs leaseless_world_def demo_world_def demo_vault_def default_defs elapse_def)

text \<open>
  C5 as stated, for every response that misses one of the expected authentication fields,
  fails on a response that carries \<^verbatim>\<open>auth.client_token\<close> but no
  \<^verbatim>\<open>auth.lease_duration\<close>: the check of line 64 passes, the stored token is replaced,
  the stored expiry becomes \<^verbatim>\<open>NaN\<close> and the policy is not called.
\<close>

theorem kubernetes_leaseless_response_counterexample:
  "data leaseless_response =
     Some \<lparr>auth = Some \<lparr>client_token = Some ''tok-1'', lease_duration = None\<rparr>\<rparr>
   \<and> token demo_vault = []
   \<and> tokenExpiresAt demo_vault = Num 0
   \<and> outcome (kubernetes (authOptions demo_vault) demo_vault leaseless_world) = Inr (VStr ''tok-1'')
   \<and> token (vault_of (kubernetes (authOptions demo_vault) demo_vault leaseless_world)) = ''tok-1''
   \<and> tokenExpiresAt (vault_of (kubernetes (authOptions demo_vault) demo_vault leaseless_world)) = NaN
   \<and> filter is_handler (trace (kubernetes (authOptions demo_vault) demo_vault leaseless_world)) = []"
proof -
  have e: "fs leaseless_world (eff_path (authOptions demo_vault) leaseless_world) \<noteq> None"
    by (simp add: leaseless_world_def demo_world_def demo_vault_def default_defs)
  have d: "data leaseless_response =
     Some \<lparr>auth = Some \<lparr>client_token = Some ''tok-1'', lease_duration = None\<rparr>\<rparr>"
    by (simp add: leaseless_response_def)
  have k: "kubernetes (authOptions demo_vault) demo_vault leaseless_world =
      loginSuccess (demo_vault\<lparr>httpsAgent := Some (Agent (Some ''CA'') True)\<rparr>)
        (elapse 124 leaseless_world)
        [EvReadFile ''/var/run/secrets/kubernetes.io/serviceaccount/token'',
         EvReadFile ''/var/run/secrets/vault/ca.crt'',
         EvPost ''https://vault.local:8200/v1/auth/kubernetes/login'' ''jwt-abc'' ''blockchain''
           (Agent (Some ''CA'') True)] ''tok-1'' None"
    by (simp add: kubernetes_existing_file[OF e leaseless_attempt] loginResolved_def
        leaseless_response_def)
  have v: "token demo_vault = []" "tokenExpiresAt demo_vault = Num 0"
    by (simp_all add: demo_vault_def)
  from d v show ?thesis by (simp add: k)
qed

subsection \<open>Login failures seen from \<^verbatim>\<open>getToken\<close>\<close>

lemma auth_closure_kubernetes:
  assumes "authMethod v = MethodName ''kubernetes''"
  shows "outcome (auth_closure v w) = outcome (kubernetes (authOptions v) v w)"
    "vault_of (auth_closure v w) = vault_of (kubernetes (authOptions v) v w)"
    "world_of (auth_closure v w) = world_of (kubernetes (authOptions v) v w)"
    "trace (auth_closure v w) = EvAuth # trace (kubernetes (authOptions v) v w)"
  using assms
  by (simp_all add: auth_closure_def outcome_def vault_of_def world_of_def trace_def
      split: prod.splits)

lemma refreshError_agent_only: "agent_only v v2 \<Longrightarrow> refreshError v2 m srv = refreshError v m srv"
  by (simp add: refreshError_def agent_only_fields)

lemma kubernetes_failure:
  assumes "fs w (eff_path opts w) \<noteq> None"
    and "loginAttempt (eff_path opts w) (eff_role opts w) v w = (r, v2, w2, tr)"
    and "login_failure v r = Some msg"
  shows "kubernetes opts v w = handleAndReturnToken v2 w2 tr msg"
proof -
  from loginAttempt_cases[OF assms(2)] have a: "agent_only v v2" by simp
  show ?thesis
  proof (cases r)
    case (Inl c)
    obtain m srv where c: "c = Caught m srv" by (cases c)
    with Inl assms(3) have "msg = refreshError v2 m srv"
      by (simp add: refreshError_agent_only[OF a])
    with Inl c show ?thesis by (simp add: kubernetes_existing_file[OF assms(1,2)])
  next
    case (Inr resp)
    with assms(3) obtain rr where rr: "resp = Some rr" "missing_token rr" "msg = unrecognizedError rr"
      by (cases resp) (auto split: if_splits)
    with Inr show ?thesis
      by (simp add: kubernetes_existing_file[OF assms(1,2)] loginResolved_missing_token)
  qed
qed

text \<open>
  C6 (as amended). When renewal is due on an instance of the \<^verbatim>\<open>kubernetes\<close> strategy
  whose credential file exists, and the login fails (something is thrown while the
  credential is read, the agent built or the login posted, or the response lacks the
  token), \<^verbatim>\<open>getToken\<close> does not raise by itself: it calls the error-handling policy
  exactly once, with the wrapped error. It raises only what the policy raises; when the
  policy returns normally, the value it returns is dropped and \<^verbatim>\<open>getToken\<close> returns the
  cached token, which is left unchanged together with its expiry.
\<close>

theorem getToken_login_failure:
  assumes "authMethod v = MethodName ''kubernetes''"
    and "\<not> renewal_not_due v w"
    and "fs w (eff_path (authOptions v) w) \<noteq> None"
    and "loginAttempt (eff_path (authOptions v) w) (eff_role (authOptions v) w) v w = (r, v2, w2, tr)"
    and "login_failure v r = Some msg"
  shows "filter is_handler (trace (getToken v w)) = [EvHandler msg]
    \<and> outcome (getToken v w) =
         (case errorHandler v msg of Inl e \<Rightarrow> Inl e | Inr x \<Rightarrow> Inr (VStr (token v)))
    \<and> token (vault_of (getToken v w)) = token v
    \<and> tokenExpiresAt (vault_of (getToken v w)) = tokenExpiresAt v"
proof -
  have g: "getToken v w = auth_closure v w"
    using assms(2) by (simp add: getToken_eq)
  have k: "kubernetes (authOptions v) v w = handleAndReturnToken v2 w2 tr msg"
    using assms(3-5) by (rule kubernetes_failure)
  from loginAttempt_cases[OF assms(4)]
  have a: "agent_only v v2" and h: "filter is_handler tr = []" by simp_all
  show ?thesis
    unfolding g auth_closure_kubernetes[OF assms(1)] k handleAndReturnToken_parts
    using h agent_only_fields[OF a] by (simp split: sum.splits)
qed

lemma refusing_attempt:
  "loginAttempt (eff_path (authOptions stale_vault) refusing_world)
     (eff_role (authOptions stale_vault) refusing_world) stale_vault refusing_world =
   (Inl (Caught ''Request failed with status code 403'' (Some ''{errors:[permission denied]}'')),
    stale_vault\<lparr>httpsAgent := Some (Agent (Some ''CA'') True)\<rparr>,
    elapse 124 refusing_world,
    [EvReadFile ''/var/run/secrets/kubernetes.io/serviceaccount/token'',
     EvReadFile ''/var/run/secrets/vault/ca.crt'',
     EvPost ''https://vault.local:8200/v1/auth/kubernetes/login'' ''jwt-abc'' ''blockchain''
       (Agent (Some ''CA'') True)])"
  by (simp add: run_defs refusing_world_def stale_vault_def demo_world_def demo_vault_def
      default_defs elapse_def)

lemma refusing_facts:
  "authMethod stale_vault = MethodName ''kubernetes''"
  "\<not> renewal_not_due stale_vault refusing_world"
  "fs refusing_world (eff_path (authOptions stale_vault) refusing_world) \<noteq> None"
  "login_failure stale_vault
     (Inl (Caught ''Request failed with status code 403'' (Some ''{errors:[permission denied]}''))) =
   Some ''Vault token refresh error: unsuccessful POST https://vault.local:8200/v1/auth/kubernetes/login, Request failed with status code 403; Server response: {errors:[permission denied]}''"
  "token stale_vault = ''stale''"
  "errorHandler stale_vault m = Inr (VStr ''fallback'')"
  by (simp_all add: stale_vault_def demo_vault_def refusing_world_def demo_world_def
      renewal_not_due_def default_defs refreshError_def)

text \<open>
  C6 as stated, with \<^verbatim>\<open>getToken\<close> returning what the policy yields, fails: with a
  policy that returns \<^verbatim>\<open>fallback\<close> and a login refused with status 403, the policy is
  called and \<^verbatim>\<open>getToken\<close> returns the cached token \<^verbatim>\<open>stale\<close>.
\<close>

theorem getToken_policy_value_counterexample:
  "filter is_handler (trace (getToken stale_vault refusing_world)) =
     [EvHandler ''Vault token refresh error: unsuccessful POST https://vault.local:8200/v1/auth/kubernetes/login, Request failed with status code 403; Server response: {errors:[permission denied]}'']
   \<and> errorHandler stale_vault ''Vault token refresh error: unsuccessful POST https://vault.local:8200/v1/auth/kubernetes/login, Request failed with status code 403; Server response: {errors:[permission denied]}'' =
       Inr (VStr ''fallback'')
   \<and> outcome (getToken stale_vault refusing_world) = Inr (VStr ''stale'')
   \<and> outcome (getToken stale_vault refusing_world) \<noteq> Inr (VStr ''fallback'')"
proof -
  have g: "getToken stale_vault refusing_world = auth_closure stale_vault refusing_world"
    using refusing_facts(2) by (simp add: getToken_eq)
  have k: "kubernetes (authOptions stale_vault) stale_vault refusing_world =
      handleAndReturnToken (stale_vault\<lparr>httpsAgent := Some (Agent (Some ''CA'') True)\<rparr>)
        (elapse 124 refusing_world)
        [EvReadFile ''/var/run/secrets/kubernetes.io/serviceaccount/token'',
         EvReadFile ''/var/run/secrets/vault/ca.crt'',
         EvPost ''https://vault.local:8200/v1/auth/kubernetes/login'' ''jwt-abc'' ''blockchain''
           (Agent (Some ''CA'') True)]
        ''Vault token refresh error: unsuccessful POST https://vault.local:8200/v1/auth/kubernetes/login, Request failed with status code 403; Server response: {errors:[permission denied]}''"
    by (rule kubernetes_failure[OF refusing_facts(3) refusing_attempt refusing_facts(4)])
  show ?thesis
    unfolding g auth_closure_kubernetes[OF refusing_facts(1)] k handleAndReturnToken_parts
    by (simp add: refusing_facts(5,6))
qed

theorem getToken_login_failure_witness:
  "authMethod stale_vault = MethodName ''kubernetes''
   \<and> \<not> renewal_not_due stale_vault refusing_world
   \<and> fs refusing_world (eff_path (authOptions stale_vault) refusing_world) \<noteq> None
   \<and> outcome (getToken stale_vault refusing_world) = Inr (VStr ''stale'')
   \<and> token (vault_of (getToken stale_vault refusing_world)) = ''stale''"
  using getToken_login_failure [OF refusing_facts(1,2,3) refusing_attempt refusing_facts(4)]
    refusing_facts(1,2,3,5,6)
  by simp

subsection \<open>The constructor and the static token\<close>

lemma constructor_fields:
  assumes "constructor cfg w = Inr v"
  shows "token v = eff_token cfg w"
    "tokenExpiresAt v = (if eff_token cfg w \<noteq> [] then Num (now w + staticTokenHorizon) else Num 0)"
    "baseUrl v = ''https://'' @ strip_trailing_slash (strip_scheme (eff_baseUrl cfg w))"
  using assms by (auto simp: constructor_def split: if_splits)

text \<open>
  C3. Every construction that succeeds with a non-empty static token \<open>t\<close> seeds the token
  state with \<open>t\<close> and with the expiry \<^verbatim>\<open>Date.now() + 31 * 24 * 60 * 60 * 1000\<close> of the
  construction; at every later clock below that expiry minus the renewal cliff of 30
  seconds, \<^verbatim>\<open>getToken\<close> on the seeded instance returns \<open>t\<close> with no effect at all: no
  strategy is invoked, nothing is read or sent, the instance is unchanged.
\<close>

theorem constructor_static_token:
  assumes "constructor cfg w = Inr v" and "c_token cfg = Some t" and "t \<noteq> []"
  shows "token v = t
    \<and> tokenExpiresAt v = Num (now w + 31 * 24 * 60 * 60 * 1000)
    \<and> (\<forall>w'. now w' < now w + 31 * 24 * 60 * 60 * 1000 - 30 * 1000 \<longrightarrow>
          getToken v w' = (Inr (VStr t), v, w', []))"
proof -
  have e: "eff_token cfg w = t" using assms(2) by (simp add: eff_token_def)
  have t: "token v = t" and x: "tokenExpiresAt v = Num (now w + 31 * 24 * 60 * 60 * 1000)"
    using constructor_fields(1,2)[OF assms(1)] e assms(3) by (simp_all add: staticTokenHorizon_def)
  have "getToken v w' = (Inr (VStr t), v, w', [])"
    if "now w' < now w + 31 * 24 * 60 * 60 * 1000 - 30 * 1000" for w'
    using that t x by (simp add: getToken_eq renewal_not_due_def)
  with t x show ?thesis by blast
qed

theorem constructor_static_token_witness:
  "constructor static_config demo_world = Inr static_vault
   \<and> c_token static_config = Some ''t-123''
   \<and> token static_vault = ''t-123''
   \<and> tokenExpiresAt static_vault = Num (1700000000000 + 2678400000)
   \<and> now (elapse 1000 demo_world) < now demo_world + 31 * 24 * 60 * 60 * 1000 - 30 * 1000
   \<and> getToken static_vault (elapse 1000 demo_world) =
        (Inr (VStr ''t-123''), static_vault, elapse 1000 demo_world, [])"
proof -
  have c: "c_token static_config = Some ''t-123''" by (simp add: static_config_def)
  have n: "''t-123'' \<noteq> []" by simp
  have w: "now demo_world = 1700000000000" by (simp add: demo_world_def)
  show ?thesis
    using constructor_static_token [OF static_constructed c n] static_constructed c w
    by simp
qed

lemma auth_closure_function:
  assumes "authMethod v = MethodFunction f"
  shows "auth_closure v w =
     (fst (f (authOptions v) (get_fields v) w),
      put_fields (fst (snd (f (authOptions v) (get_fields v) w))) v,
      snd (snd (f (authOptions v) (get_fields v) w)),
      [EvAuth])"
  using assms by (simp add: auth_closure_def split: prod.splits)

lemma auth_closure_kubernetes_run:
  assumes "authMethod v = MethodName ''kubernetes''"
  shows "auth_closure v w =
     (outcome (kubernetes (authOptions v) v w),
      vault_of (kubernetes (authOptions v) v w),
      world_of (kubernetes (authOptions v) v w),
      EvAuth # trace (kubernetes (authOptions v) v w))"
  using assms
  by (simp add: auth_closure_def outcome_def vault_of_def world_of_def trace_def split: prod.splits)

lemma constructor_strategy:
  assumes "constructor cfg w = Inr v"
  shows "authMethod v = eff_authMethod cfg w" "authOptions v = eff_authOptions cfg"
    "authMethod v = MethodName n \<Longrightarrow> n = ''kubernetes''"
  using assms by (auto simp: constructor_def split: if_splits)

text \<open>
  C10 (as amended). A construction that succeeds with the empty string as static token
  stores the empty token and the expiry 0, and keeps the configured auth method and
  options. The first \<^verbatim>\<open>getToken\<close>, at any clock from 30 seconds before the epoch on,
  is then the run of the configured strategy: of the caller-supplied function on the
  instance, or of the \<^verbatim>\<open>kubernetes\<close> method, invoked exactly once, whose outcome, instance
  and effects are those of \<^verbatim>\<open>getToken\<close>. The construction yields the very instance that
  the same construction without any token yields when \<^verbatim>\<open>VAULT_TOKEN\<close> is unset or empty.
\<close>

theorem constructor_empty_token:
  assumes "constructor cfg w = Inr v" and "c_token cfg = Some []"
  shows "token v = [] \<and> tokenExpiresAt v = Num 0
    \<and> authMethod v = eff_authMethod cfg w \<and> authOptions v = eff_authOptions cfg
    \<and> (env w ''VAULT_TOKEN'' = None \<or> env w ''VAULT_TOKEN'' = Some [] \<longrightarrow>
          constructor (cfg\<lparr>c_token := None\<rparr>) w = Inr v)
    \<and> (\<forall>w'. - 30000 \<le> now w' \<longrightarrow>
          getToken v w' = auth_closure v w'
          \<and> length (filter is_auth (trace (getToken v w'))) = 1
          \<and> (\<forall>f. authMethod v = MethodFunction f \<longrightarrow>
                getToken v w' =
                  (fst (f (authOptions v) (get_fields v) w'),
                   put_fields (fst (snd (f (authOptions v) (get_fields v) w'))) v,
                   snd (snd (f (authOptions v) (get_fields v) w')),
                   [EvAuth]))
          \<and> (\<forall>n. authMethod v = MethodName n \<longrightarrow>
                getToken v w' =
                  (outcome (kubernetes (authOptions v) v w'),
                   vault_of (kubernetes (authOptions v) v w'),
                   world_of (kubernetes (authOptions v) v w'),
                   EvAuth # trace (kubernetes (authOptions v) v w'))))"
proof -
  have e: "eff_token cfg w = []" using assms(2) by (simp add: eff_token_def)
  have t: "token v = []" and x: "tokenExpiresAt v = Num 0"
    using constructor_fields(1,2)[OF assms(1)] e by simp_all
  note st = constructor_strategy[OF assms(1)]
  have same: "constructor (cfg\<lparr>c_token := None\<rparr>) w = Inr v"
    if "env w ''VAULT_TOKEN'' = None \<or> env w ''VAULT_TOKEN'' = Some []"
  proof -
    from that have "eff_token (cfg\<lparr>c_token := None\<rparr>) w = []"
      by (auto simp: eff_token_def getTokenDefault_def env_or_def)
    with e have "eff_token (cfg\<lparr>c_token := None\<rparr>) w = eff_token cfg w"
      by simp
    then have "constructor (cfg\<lparr>c_token := None\<rparr>) w = constructor cfg w"
      by (simp add: constructor_def eff_authMethod_def eff_sslCertPath_def
          eff_ignoreSslCertCheck_def eff_baseUrl_def eff_errorHandler_def eff_authOptions_def)
    with assms(1) show ?thesis by simp
  qed
  have s: "\<not> unsupported (authMethod v)" using assms(1) by (rule constructor_supported)
  have run: "getToken v w' = auth_closure v w'
          \<and> length (filter is_auth (trace (getToken v w'))) = 1
          \<and> (\<forall>f. authMethod v = MethodFunction f \<longrightarrow>
                getToken v w' =
                  (fst (f (authOptions v) (get_fields v) w'),
                   put_fields (fst (snd (f (authOptions v) (get_fields v) w'))) v,
                   snd (snd (f (authOptions v) (get_fields v) w')),
                   [EvAuth]))
          \<and> (\<forall>n. authMethod v = MethodName n \<longrightarrow>
                getToken v w' =
                  (outcome (kubernetes (authOptions v) v w'),
                   vault_of (kubernetes (authOptions v) v w'),
                   world_of (kubernetes (authOptions v) v w'),
                   EvAuth # trace (kubernetes (authOptions v) v w')))"
    if "- 30000 \<le> now w'" for w'
  proof -
    from that x have g: "getToken v w' = auth_closure v w'"
      by (simp add: getToken_eq renewal_not_due_def)
    have c: "length (filter is_auth (trace (getToken v w'))) = 1"
      using auth_closure_once[OF s, of w'] by (simp add: g)
    have f: "getToken v w' =
                  (fst (f (authOptions v) (get_fields v) w'),
                   put_fields (fst (snd (f (authOptions v) (get_fields v) w'))) v,
                   snd (snd (f (authOptions v) (get_fields v) w')),
                   [EvAuth])" if "authMethod v = MethodFunction f" for f
      using that by (simp only: g auth_closure_function)
    have k: "getToken v w' =
                  (outcome (kubernetes (authOptions v) v w'),
                   vault_of (kubernetes (authOptions v) v w'),
                   world_of (kubernetes (authOptions v) v w'),
                   EvAuth # trace (kubernetes (authOptions v) v w'))" if "authMethod v = MethodName n" for n
    proof -
      from that st(3) have "authMethod v = MethodName ''kubernetes''" by simp
      then show ?thesis by (simp only: g auth_closure_kubernetes_run)
    qed
    from g c f k show ?thesis by blast
  qed
  from t x st(1,2) same run show ?thesis by blast
qed

lemma empty_constructed:
  "constructor (demo_config\<lparr>c_token := Some []\<rparr>) demo_world = Inr demo_vault"
  by (simp add: constructor_def demo_defs default_defs strip_scheme_def strip_trailing_slash_def)

lemma custom_constructed: "constructor custom_config demo_world = Inr custom_vault"
  by (simp add: constructor_def custom_config_def custom_vault_def demo_defs default_defs
      strip_scheme_def strip_trailing_slash_def)

theorem constructor_empty_token_witness:
  "constructor (demo_config\<lparr>c_token := Some []\<rparr>) demo_world = Inr demo_vault
   \<and> env demo_world ''VAULT_TOKEN'' = None
   \<and> constructor (demo_config\<lparr>c_token := None\<rparr>) demo_world = Inr demo_vault
   \<and> - 30000 \<le> now demo_world
   \<and> authMethod demo_vault = MethodName ''kubernetes''
   \<and> getToken demo_vault demo_world =
       (outcome (kubernetes (authOptions demo_vault) demo_vault demo_world),
        vault_of (kubernetes (authOptions demo_vault) demo_vault demo_world),
        world_of (kubernetes (authOptions demo_vault) demo_vault demo_world),
        EvAuth # trace (kubernetes (authOptions demo_vault) demo_vault demo_world))
   \<and> length (filter is_auth (trace (getToken demo_vault demo_world))) = 1
   \<and> constructor custom_config demo_world = Inr custom_vault
   \<and> c_token custom_config = Some []
   \<and> authMethod custom_vault = MethodFunction custom_auth
   \<and> getToken custom_vault demo_world =
       (Inr (VStr ''custom-token''),
        custom_vault\<lparr>token := ''custom-token'', tokenExpiresAt := Num 1700000060000\<rparr>,
        demo_world, [EvAuth])"
proof -
  have c: "c_token (demo_config\<lparr>c_token := Some []\<rparr>) = Some []" by simp
  have e: "env demo_world ''VAULT_TOKEN'' = None" "- 30000 \<le> now demo_world"
    by (simp_all add: demo_world_def)
  have m: "authMethod demo_vault = MethodName ''kubernetes''"
    by (simp add: demo_vault_def)
  note th = constructor_empty_token [OF empty_constructed c]
  from th e(1) have s: "constructor (demo_config\<lparr>c_token := None\<rparr>) demo_world = Inr demo_vault"
    by simp
  from th e(2) m have g: "getToken demo_vault demo_world =
       (outcome (kubernetes (authOptions demo_vault) demo_vault demo_world),
        vault_of (kubernetes (authOptions demo_vault) demo_vault demo_world),
        world_of (kubernetes (authOptions demo_vault) demo_vault demo_world),
        EvAuth # trace (kubernetes (authOptions demo_vault) demo_vault demo_world))"
    by blast
  from th e(2) have l: "length (filter is_auth (trace (getToken demo_vault demo_world))) = 1"
    by blast
  have cc: "c_token custom_config = Some []"
    by (simp add: custom_config_def)
  have cm: "authMethod custom_vault = MethodFunction custom_auth"
    by (simp add: custom_vault_def)
  note tc = constructor_empty_token [OF custom_constructed cc]
  from tc e(2) cm have cg: "getToken custom_vault demo_world =
       (fst (custom_auth (authOptions custom_vault) (get_fields custom_vault) demo_world),
        put_fields (fst (snd (custom_auth (authOptions custom_vault) (get_fields custom_vault) demo_world)))
          custom_vault,
        snd (snd (custom_auth (authOptions custom_vault) (get_fields custom_vault) demo_world)),
        [EvAuth])"
    by blast
  have cv: "(fst (custom_auth (authOptions custom_vault) (get_fields custom_vault) demo_world),
        put_fields (fst (snd (custom_auth (authOptions custom_vault) (get_fields custom_vault) demo_world)))
          custom_vault,
        snd (snd (custom_auth (authOptions custom_vault) (get_fields custom_vault) demo_world)),
        [EvAuth]) =
       (Inr (VStr ''custom-token''),
        custom_vault\<lparr>token := ''custom-token'', tokenExpiresAt := Num 1700000060000\<rparr>,
        demo_world, [EvAuth])"
    by (simp add: custom_auth_def put_fields_def get_fields_def custom_vault_def demo_vault_def
        demo_world_def)
  from cg cv have cr: "getToken custom_vault demo_world =
       (Inr (VStr ''custom-token''),
        custom_vault\<lparr>token := ''custom-token'', tokenExpiresAt := Num 1700000060000\<rparr>,
        demo_world, [EvAuth])"
    by (rule trans)
  from empty_constructed e s m g l custom_constructed cc cm cr show ?thesis by blast
qed

lemma env_constructed: "constructor demo_config token_env_world = Inr env_vault"
  by (simp add: constructor_def env_vault_def token_env_world_def demo_defs default_defs
      strip_scheme_def strip_trailing_slash_def staticTokenHorizon_def)

lemma env_empty_constructed:
  "constructor (demo_config\<lparr>c_token := Some []\<rparr>) token_env_world = Inr demo_vault"
  by (simp add: constructor_def token_env_world_def demo_defs default_defs
      strip_scheme_def strip_trailing_slash_def)

text \<open>
  C10 as stated fails in two ways. With \<^verbatim>\<open>VAULT_TOKEN\<close> set, supplying no token is
  not supplying the empty one: the omitted token defaults to the variable and is stored
  with the 31-day horizon, and \<^verbatim>\<open>getToken\<close> returns it without invoking any strategy,
  where the empty token gives the empty token, the expiry 0 and a renewal. And with a clock
  more than 30 seconds before the epoch the first \<^verbatim>\<open>getToken\<close> on the expiry 0 returns
  the cached empty token, no strategy being invoked.
\<close>

theorem constructor_empty_token_counterexample:
  "env token_env_world ''VAULT_TOKEN'' = Some ''envtok''
   \<and> constructor (demo_config\<lparr>c_token := Some []\<rparr>) token_env_world = Inr demo_vault
   \<and> token demo_vault = [] \<and> tokenExpiresAt demo_vault = Num 0
   \<and> c_token demo_config = None
   \<and> constructor demo_config token_env_world = Inr env_vault
   \<and> token env_vault = ''envtok'' \<and> tokenExpiresAt env_vault = Num (now token_env_world + 2678400000)
   \<and> getToken env_vault token_env_world = (Inr (VStr ''envtok''), env_vault, token_env_world, [])
   \<and> filter is_auth (trace (getToken demo_vault token_env_world)) \<noteq> []
   \<and> now early_world = - 30001
   \<and> getToken demo_vault early_world = (Inr (VStr []), demo_vault, early_world, [])"
proof -
  have a: "env token_env_world ''VAULT_TOKEN'' = Some ''envtok''"
    "now token_env_world = 1700000000000" "now early_world = - 30001"
    by (simp_all add: token_env_world_def early_world_def demo_world_def)
  have v: "token demo_vault = []" "tokenExpiresAt demo_vault = Num 0" "c_token demo_config = None"
    "token env_vault = ''envtok''" "tokenExpiresAt env_vault = Num 1702678400000"
    "\<not> unsupported (authMethod demo_vault)"
    by (simp_all add: demo_vault_def env_vault_def demo_config_def)
  have g: "getToken env_vault token_env_world = (Inr (VStr ''envtok''), env_vault, token_env_world, [])"
    by (simp add: getToken_eq renewal_not_due_def v a)
  have d: "getToken demo_vault token_env_world = auth_closure demo_vault token_env_world"
    by (simp add: getToken_eq renewal_not_due_def v a)
  have n: "filter is_auth (trace (getToken demo_vault token_env_world)) \<noteq> []"
    using auth_closure_once[OF v(6), of token_env_world] by (auto simp: d)
  have y: "getToken demo_vault early_world = (Inr (VStr []), demo_vault, early_world, [])"
    by (simp add: getToken_eq renewal_not_due_def v a)
  from a v g n y env_constructed env_empty_constructed show ?thesis by simp
qed

text \<open>
  What the 31-day horizon is given to is a non-empty token, from the configuration or from
  the default: an omitted token defaults to \<^verbatim>\<open>VAULT_TOKEN\<close>, which is then the static
  token.
\<close>

lemma constructor_env_token:
  assumes "constructor cfg w = Inr v" and "c_token cfg = None"
    and "env w ''VAULT_TOKEN'' = Some t" and "t \<noteq> []"
  shows "token v = t \<and> tokenExpiresAt v = Num (now w + staticTokenHorizon)"
  using constructor_fields(1,2)[OF assms(1)] assms(2-4)
  by (simp add: eff_token_def getTokenDefault_def env_or_def)

text \<open>
  C8. The constructor throws exactly when the input is a configuration error (and returns
  an instance exactly when it is not), and what it throws does not depend on the
  error-handling policy: under every policy, also one that returns normally, the same
  error is thrown.
\<close>

theorem constructor_raises_iff_configuration_error:
  "(\<exists>e. constructor cfg w = Inl e) = configuration_error cfg w
   \<and> (\<exists>v. constructor cfg w = Inr v) = (\<not> configuration_error cfg w)
   \<and> (\<forall>h e. constructor cfg w = Inl e \<longrightarrow> constructor (cfg\<lparr>c_errorHandler := h\<rparr>) w = Inl e)"
proof -
  have u: "unsupported m = (case m of MethodName n \<Rightarrow> n \<noteq> ''kubernetes'' | MethodFunction f \<Rightarrow> False)" for m
    by (cases m) simp_all
  have a: "(\<exists>e. constructor cfg w = Inl e) = configuration_error cfg w"
    by (auto simp: constructor_def configuration_error_def existsSync_def u)
  have b: "(\<exists>v. constructor cfg w = Inr v) = (\<not> configuration_error cfg w)"
    by (auto simp: constructor_def configuration_error_def existsSync_def u)
  have c: "constructor (cfg\<lparr>c_errorHandler := h\<rparr>) w = Inl e" if "constructor cfg w = Inl e" for h e
    using that
    by (auto simp: constructor_def eff_authMethod_def eff_sslCertPath_def
        eff_ignoreSslCertCheck_def eff_baseUrl_def split: if_splits)
  from a b c show ?thesis by blast
qed

theorem constructor_raises_iff_configuration_error_witness:
  "configuration_error ldap_config demo_world
   \<and> constructor ldap_config demo_world = Inl (Error ''Vault: Unsupported auth method ldap'')
   \<and> constructor (ldap_config\<lparr>c_errorHandler := Some (\<lambda>m. Inr VNull)\<rparr>) demo_world =
        Inl (Error ''Vault: Unsupported auth method ldap'')
   \<and> \<not> configuration_error demo_config demo_world
   \<and> constructor demo_config demo_world = Inr demo_vault"
proof -
  have l: "constructor ldap_config demo_world = Inl (Error ''Vault: Unsupported auth method ldap'')"
    by (simp add: constructor_def ldap_config_def demo_defs default_defs)
  show ?thesis
    using constructor_raises_iff_configuration_error [of ldap_config demo_world]
      constructor_raises_iff_configuration_error [of demo_config demo_world]
      l demo_constructed
    by auto
qed




subsection \<open>The stored base URL\<close>

lemma tuple_parts [simp]:
  "outcome (r, v, w, tr) = r" "vault_of (r, v, w, tr) = v"
  "world_of (r, v, w, tr) = w" "trace (r, v, w, tr) = tr"
  by (simp_all add: outcome_def vault_of_def world_of_def trace_def)

lemma strip_scheme_http: "strip_scheme (''http://'' @ r) = r"
  by (simp add: strip_scheme_def)

lemma strip_scheme_https: "strip_scheme (''https://'' @ r) = r"
  by (simp add: strip_scheme_def)

lemma strip_scheme_other:
  "take 7 b \<noteq> ''http://'' \<Longrightarrow> take 8 b \<noteq> ''https://'' \<Longrightarrow> strip_scheme b = b"
  by (simp add: strip_scheme_def)

lemma strip_trailing_slash_snoc: "strip_trailing_slash (r @ ''/'') = r"
  by (simp add: strip_trailing_slash_def)

lemma strip_trailing_slash_other:
  "r = [] \<or> last r \<noteq> CHR ''/'' \<Longrightarrow> strip_trailing_slash r = r"
  by (auto simp: strip_trailing_slash_def)

lemma getHttpsAgent_baseUrl: "baseUrl (vault_of (getHttpsAgent v w)) = baseUrl v"
proof -
  obtain r v' w' tr where g: "getHttpsAgent v w = (r, v', w', tr)" by (metis prod_cases4)
  from getHttpsAgent_cases[OF g] have "agent_only v v'" by simp
  then show ?thesis by (simp add: g agent_only_fields)
qed

lemma loginResolved_baseUrl: "baseUrl (vault_of (loginResolved v w tr resp)) = baseUrl v"
  by (simp add: loginResolved_def split: option.splits)

lemma kubernetes_baseUrl: "baseUrl (vault_of (kubernetes opts v w)) = baseUrl v"
proof (cases "fs w (eff_path opts w) = None")
  case True
  then show ?thesis by (simp add: kubernetes_missing_file)
next
  case False
  obtain r v2 w2 tr where la: "loginAttempt (eff_path opts w) (eff_role opts w) v w = (r, v2, w2, tr)"
    by (metis prod_cases4)
  from loginAttempt_cases[OF la] have a: "baseUrl v2 = baseUrl v"
    by (simp add: agent_only_fields)
  show ?thesis
  proof (cases r)
    case (Inl c)
    with a show ?thesis by (cases c) (simp add: kubernetes_existing_file[OF False la])
  next
    case (Inr resp)
    with a show ?thesis by (simp add: kubernetes_existing_file[OF False la] loginResolved_baseUrl)
  qed
qed

lemma auth_closure_baseUrl:
  assumes "keeps_baseUrl (authMethod v)"
  shows "baseUrl (vault_of (auth_closure v w)) = baseUrl v"
proof (cases "authMethod v")
  case (MethodName n)
  show ?thesis
  proof (cases "n = ''kubernetes''")
    case True
    with MethodName show ?thesis
      by (simp add: auth_closure_kubernetes(2) kubernetes_baseUrl)
  next
    case False
    with MethodName show ?thesis
      by (simp add: auth_closure_def)
  qed
next
  case (MethodFunction f)
  with assms have k: "baseUrl (fst (snd (f (authOptions v) (get_fields v) w))) = baseUrl (get_fields v)"
    by (simp add: keeps_baseUrl_def)
  with MethodFunction show ?thesis
    by (auto simp: auth_closure_def put_fields_def get_fields_def split: prod.splits)
qed

lemma getToken_baseUrl:
  "keeps_baseUrl (authMethod v) \<Longrightarrow> baseUrl (vault_of (getToken v w)) = baseUrl v"
  by (simp add: getToken_eq auth_closure_baseUrl)

lemma getToken_no_request: "EvRequest out \<notin> set (trace (getToken v w))"
proof (cases "renewal_not_due v w")
  case True
  then show ?thesis by (simp add: getToken_eq)
next
  case False
  then show ?thesis
    using kubernetes_trace[of "authOptions v" v w]
    by (auto simp: getToken_eq auth_closure_def trace_def split: auth_method.splits prod.splits if_splits)
qed

lemma request_cases:
  assumes "getHttpsAgent v w = (ra, v1, w1, tr1)" and "getToken v1 w1 = (rt, v2, w2, tr2)"
  shows "(\<exists>e. ra = Inl e \<and> request p v w = (Inl e, v1, w1, tr1))
    \<or> (\<exists>a e. ra = Inr a \<and> rt = Inl e \<and> request p v w = (Inl e, v2, w2, tr1 @ tr2))
    \<or> (\<exists>a tok. ra = Inr a \<and> rt = Inr tok \<and> vault_of (request p v w) = v2
          \<and> (trace (request p v w) = tr1 @ tr2 @ [EvRequest (outgoing v a p tok)]
              \<or> (\<exists>m. trace (request p v w) = tr1 @ tr2 @ [EvRequest (outgoing v a p tok), EvHandler m])))"
proof (cases ra)
  case (Inl e)
  with assms show ?thesis by (simp add: request_def)
next
  case (Inr a)
  show ?thesis
  proof (cases rt)
    case (Inl e)
    with assms Inr show ?thesis by (simp add: request_def)
  next
    case tok: (Inr tok)
    obtain d rr where q: "requestReply w2 (outgoing v a p tok) = (d, rr)" by force
    with assms Inr tok show ?thesis
      by (cases rr) (simp_all add: request_def)
  qed
qed

lemma request_baseUrl:
  assumes "keeps_baseUrl (authMethod v)"
  shows "baseUrl (vault_of (request p v w)) = baseUrl v"
proof -
  obtain ra v1 w1 tr1 where g: "getHttpsAgent v w = (ra, v1, w1, tr1)" by (metis prod_cases4)
  obtain rt v2 w2 tr2 where t: "getToken v1 w1 = (rt, v2, w2, tr2)" by (metis prod_cases4)
  from getHttpsAgent_cases[OF g] have a: "agent_only v v1" by simp
  then have b1: "baseUrl v1 = baseUrl v" and m: "authMethod v1 = authMethod v"
    by (simp_all add: agent_only_fields)
  from getToken_baseUrl[of v1 w1] assms m t have b2: "baseUrl v2 = baseUrl v1" by simp
  from request_cases[OF g t, of p] b1 b2 show ?thesis by auto
qed


text \<open>No method replaces the auth method of the instance.\<close>

lemma getHttpsAgent_authMethod: "authMethod (vault_of (getHttpsAgent v w)) = authMethod v"
proof -
  obtain r v' w' tr where g: "getHttpsAgent v w = (r, v', w', tr)" by (metis prod_cases4)
  from getHttpsAgent_cases[OF g] have "agent_only v v'" by simp
  then show ?thesis by (simp add: g agent_only_fields)
qed

lemma loginResolved_authMethod: "authMethod (vault_of (loginResolved v w tr resp)) = authMethod v"
  by (simp add: loginResolved_def split: option.splits)

lemma kubernetes_authMethod: "authMethod (vault_of (kubernetes opts v w)) = authMethod v"
proof (cases "fs w (eff_path opts w) = None")
  case True
  then show ?thesis by (simp add: kubernetes_missing_file)
next
  case False
  obtain r v2 w2 tr where la: "loginAttempt (eff_path opts w) (eff_role opts w) v w = (r, v2, w2, tr)"
    by (metis prod_cases4)
  from loginAttempt_cases[OF la] have a: "authMethod v2 = authMethod v"
    by (simp add: agent_only_fields)
  show ?thesis
  proof (cases r)
    case (Inl c)
    with a show ?thesis by (cases c) (simp add: kubernetes_existing_file[OF False la])
  next
    case (Inr resp)
    with a show ?thesis by (simp add: kubernetes_existing_file[OF False la] loginResolved_authMethod)
  qed
qed

lemma auth_closure_authMethod: "authMethod (vault_of (auth_closure v w)) = authMethod v"
proof (cases "authMethod v")
  case (MethodName n)
  show ?thesis
  proof (cases "n = ''kubernetes''")
    case True
    with MethodName show ?thesis
      by (simp add: auth_closure_kubernetes(2) kubernetes_authMethod)
  next
    case False
    with MethodName show ?thesis
      by (simp add: auth_closure_def)
  qed
next
  case (MethodFunction f)
  then show ?thesis
    by (auto simp: auth_closure_def put_fields_def split: prod.splits)
qed

lemma getToken_authMethod: "authMethod (vault_of (getToken v w)) = authMethod v"
  by (simp add: getToken_eq auth_closure_authMethod)

lemma request_authMethod: "authMethod (vault_of (request p v w)) = authMethod v"
proof -
  obtain ra v1 w1 tr1 where g: "getHttpsAgent v w = (ra, v1, w1, tr1)" by (metis prod_cases4)
  obtain rt v2 w2 tr2 where t: "getToken v1 w1 = (rt, v2, w2, tr2)" by (metis prod_cases4)
  from getHttpsAgent_authMethod[of v w] g have m1: "authMethod v1 = authMethod v" by simp
  from getToken_authMethod[of v1 w1] t have m2: "authMethod v2 = authMethod v1" by simp
  from request_cases[OF g t, of p] m1 m2 show ?thesis by auto
qed

lemma perform_kept:
  "authMethod (perform c v w) = authMethod v"
  "keeps_baseUrl (authMethod v) \<Longrightarrow> baseUrl (perform c v w) = baseUrl v"
  by (cases c; simp add: getHttpsAgent_authMethod getToken_authMethod request_authMethod
      getHttpsAgent_baseUrl getToken_baseUrl request_baseUrl)+

lemma after_calls_baseUrl:
  "keeps_baseUrl (authMethod v) \<Longrightarrow> baseUrl (after_calls cs v) = baseUrl v"
proof (induction cs arbitrary: v)
  case Nil
  show ?case by simp
next
  case (Cons cw cs)
  obtain c w where cw: "cw = (c, w)" by (cases cw)
  from Cons.prems have k: "keeps_baseUrl (authMethod (perform c v w))"
    by (simp add: perform_kept(1))
  from Cons.IH[OF k] Cons.prems show ?case
    by (simp add: cw perform_kept(2))
qed

text \<open>
  C9. A construction that succeeds has a non-empty base URL and stores \<^verbatim>\<open>https://\<close>
  followed by that URL without its leading \<^verbatim>\<open>http://\<close> or \<^verbatim>\<open>https://\<close> (if it has
  one) and, after that, without one trailing slash (if it has one). No operation of the
  module assigns the stored value: \<^verbatim>\<open>getHttpsAgent\<close> and the \<^verbatim>\<open>kubernetes\<close> method
  leave it as it is, and so do \<^verbatim>\<open>getToken\<close> and \<^verbatim>\<open>request\<close>, a caller-supplied auth
  function being one that does not assign it itself; hence the stored value is the same
  after every history of calls.
\<close>

theorem constructor_baseUrl_normalized:
  assumes "constructor cfg w = Inr v"
  shows "eff_baseUrl cfg w \<noteq> []
    \<and> baseUrl v = ''https://'' @ strip_trailing_slash (strip_scheme (eff_baseUrl cfg w))
    \<and> (\<forall>r. eff_baseUrl cfg w = ''http://'' @ r \<or> eff_baseUrl cfg w = ''https://'' @ r \<longrightarrow>
          baseUrl v = ''https://'' @ strip_trailing_slash r)
    \<and> (take 7 (eff_baseUrl cfg w) \<noteq> ''http://'' \<and> take 8 (eff_baseUrl cfg w) \<noteq> ''https://'' \<longrightarrow>
          baseUrl v = ''https://'' @ strip_trailing_slash (eff_baseUrl cfg w))
    \<and> (\<forall>r. strip_trailing_slash (r @ ''/'') = r)
    \<and> (\<forall>r. r = [] \<or> last r \<noteq> CHR ''/'' \<longrightarrow> strip_trailing_slash r = r)
    \<and> (\<forall>w'. baseUrl (vault_of (getHttpsAgent v w')) = baseUrl v)
    \<and> (\<forall>opts w'. baseUrl (vault_of (kubernetes opts v w')) = baseUrl v)
    \<and> (keeps_baseUrl (authMethod v) \<longrightarrow>
          (\<forall>w'. baseUrl (vault_of (getToken v w')) = baseUrl v)
          \<and> (\<forall>p w'. baseUrl (vault_of (request p v w')) = baseUrl v)
          \<and> (\<forall>cs. baseUrl (after_calls cs v) = baseUrl v))"
proof -
  have ne: "eff_baseUrl cfg w \<noteq> []"
    using assms by (auto simp: constructor_def split: if_splits)
  have b: "baseUrl v = ''https://'' @ strip_trailing_slash (strip_scheme (eff_baseUrl cfg w))"
    using assms by (rule constructor_fields(3))
  have s: "baseUrl v = ''https://'' @ strip_trailing_slash r"
    if "eff_baseUrl cfg w = ''http://'' @ r \<or> eff_baseUrl cfg w = ''https://'' @ r" for r
    using that b strip_scheme_http[of r] strip_scheme_https[of r] by auto
  have o: "take 7 (eff_baseUrl cfg w) \<noteq> ''http://'' \<and> take 8 (eff_baseUrl cfg w) \<noteq> ''https://'' \<longrightarrow>
          baseUrl v = ''https://'' @ strip_trailing_slash (eff_baseUrl cfg w)"
    using b by (simp add: strip_scheme_other)
  from ne b show ?thesis
  proof (intro conjI allI impI)
    fix r
    assume "eff_baseUrl cfg w = ''http://'' @ r \<or> eff_baseUrl cfg w = ''https://'' @ r"
    then show "baseUrl v = ''https://'' @ strip_trailing_slash r" by (rule s)
  next
    assume "take 7 (eff_baseUrl cfg w) \<noteq> ''http://'' \<and> take 8 (eff_baseUrl cfg w) \<noteq> ''https://''"
    with o show "baseUrl v = ''https://'' @ strip_trailing_slash (eff_baseUrl cfg w)" by simp
  next
    fix r :: string
    show "strip_trailing_slash (r @ ''/'') = r" by (rule strip_trailing_slash_snoc)
  next
    fix r :: string
    assume "r = [] \<or> last r \<noteq> CHR ''/''"
    then show "strip_trailing_slash r = r" by (rule strip_trailing_slash_other)
  next
    fix w'
    show "baseUrl (vault_of (getHttpsAgent v w')) = baseUrl v" by (rule getHttpsAgent_baseUrl)
  next
    fix opts w'
    show "baseUrl (vault_of (kubernetes opts v w')) = baseUrl v" by (rule kubernetes_baseUrl)
  next
    fix w'
    assume "keeps_baseUrl (authMethod v)"
    then show "baseUrl (vault_of (getToken v w')) = baseUrl v" by (rule getToken_baseUrl)
  next
    fix p w'
    assume "keeps_baseUrl (authMethod v)"
    then show "baseUrl (vault_of (request p v w')) = baseUrl v" by (rule request_baseUrl)
  next
    fix cs
    assume "keeps_baseUrl (authMethod v)"
    then show "baseUrl (after_calls cs v) = baseUrl v" by (rule after_calls_baseUrl)
  qed
qed

theorem constructor_baseUrl_normalized_witness:
  "constructor demo_config demo_world = Inr demo_vault
   \<and> eff_baseUrl demo_config demo_world = ''http://'' @ ''vault.local:8200/v1/''
   \<and> keeps_baseUrl (authMethod demo_vault)
   \<and> baseUrl demo_vault = ''https://vault.local:8200/v1''
   \<and> baseUrl (vault_of (getToken demo_vault demo_world)) = ''https://vault.local:8200/v1''
   \<and> baseUrl (after_calls [(CallGetToken, demo_world), (CallRequest demo_params, refusing_world)]
        demo_vault) = ''https://vault.local:8200/v1''"
proof -
  note th = constructor_baseUrl_normalized [OF demo_constructed]
  have e: "eff_baseUrl demo_config demo_world = ''http://'' @ ''vault.local:8200/v1/''"
    by (simp add: eff_baseUrl_def demo_config_def)
  have k: "keeps_baseUrl (authMethod demo_vault)"
    by (simp add: keeps_baseUrl_def demo_vault_def)
  from th e have b: "baseUrl demo_vault = ''https://'' @ strip_trailing_slash ''vault.local:8200/v1/''"
    by blast
  have n: "''https://'' @ strip_trailing_slash ''vault.local:8200/v1/'' = ''https://vault.local:8200/v1''"
    by (simp add: strip_trailing_slash_def)
  from th k have g: "baseUrl (vault_of (getToken demo_vault demo_world)) = baseUrl demo_vault"
    by blast
  from th k have h: "baseUrl (after_calls [(CallGetToken, demo_world), (CallRequest demo_params, refusing_world)]
        demo_vault) = baseUrl demo_vault"
    by blast
  from demo_constructed e k b g h n show ?thesis by simp
qed

subsection \<open>The headers of a request\<close>

lemma outgoing_headers: "o_headers (outgoing v a p tok) k = expected_header tok (p_headers p) k"
  by (auto simp: outgoing_def merge_headers_def expected_header_def map_add_def
      split: option.splits)

text \<open>
  C7. Let \<^verbatim>\<open>request(params)\<close> obtain the agent and then call \<^verbatim>\<open>getToken\<close>. Every data
  request it issues is issued after both succeeded, and its headers are the caller's
  headers plus, under \<^verbatim>\<open>X-Vault-Token\<close>, the token \<^verbatim>\<open>getToken\<close> returned, unless the
  caller supplied a header of that name, whose value is then kept; and when both
  succeed, the request is issued.
\<close>

theorem request_merges_token_header:
  assumes "getHttpsAgent v w = (ra, v1, w1, tr1)" and "getToken v1 w1 = (rt, v2, w2, tr2)"
  shows "(\<forall>out. EvRequest out \<in> set (trace (request p v w)) \<longrightarrow>
            (\<exists>a tok. ra = Inr a \<and> rt = Inr tok \<and> out = outgoing v a p tok
               \<and> (\<forall>k. o_headers out k = expected_header tok (p_headers p) k)))
    \<and> (\<forall>a tok. ra = Inr a \<and> rt = Inr tok \<longrightarrow>
          EvRequest (outgoing v a p tok) \<in> set (trace (request p v w)))
    \<and> (\<forall>a tok h x. p_headers p = Some h \<and> h ''X-Vault-Token'' = Some x \<longrightarrow>
          o_headers (outgoing v a p tok) ''X-Vault-Token'' = Some x)
    \<and> (\<forall>a tok. p_headers p = None \<or> (\<exists>h. p_headers p = Some h \<and> h ''X-Vault-Token'' = None) \<longrightarrow>
          o_headers (outgoing v a p tok) ''X-Vault-Token'' = Some tok)"
proof -
  from getHttpsAgent_cases[OF assms(1)] have n1: "EvRequest out \<notin> set tr1" for out by auto
  from getToken_no_request[of _ v1 w1] assms(2) have n2: "EvRequest out \<notin> set tr2" for out by simp
  have only: "\<exists>a tok. ra = Inr a \<and> rt = Inr tok \<and> out = outgoing v a p tok
               \<and> (\<forall>k. o_headers out k = expected_header tok (p_headers p) k)"
    if "EvRequest out \<in> set (trace (request p v w))" for out
    using request_cases[OF assms, of p] that n1 n2 by (auto simp: outgoing_headers)
  have sent: "EvRequest (outgoing v a p tok) \<in> set (trace (request p v w))"
    if "ra = Inr a \<and> rt = Inr tok" for a tok
    using request_cases[OF assms, of p] that by auto
  have mine: "o_headers (outgoing v a p tok) ''X-Vault-Token'' = Some x"
    if "p_headers p = Some h \<and> h ''X-Vault-Token'' = Some x" for a tok h x
    using that by (simp add: outgoing_headers expected_header_def)
  have theirs: "o_headers (outgoing v a p tok) ''X-Vault-Token'' = Some tok"
    if "p_headers p = None \<or> (\<exists>h. p_headers p = Some h \<and> h ''X-Vault-Token'' = None)" for a tok
    using that by (auto simp: outgoing_headers expected_header_def)
  show ?thesis
  proof (intro conjI allI impI)
    fix out
    assume "EvRequest out \<in> set (trace (request p v w))"
    then show "\<exists>a tok. ra = Inr a \<and> rt = Inr tok \<and> out = outgoing v a p tok
               \<and> (\<forall>k. o_headers out k = expected_header tok (p_headers p) k)"
      by (rule only)
  next
    fix a tok
    assume "ra = Inr a \<and> rt = Inr tok"
    then show "EvRequest (outgoing v a p tok) \<in> set (trace (request p v w))" by (rule sent)
  next
    fix a tok h x
    assume "p_headers p = Some h \<and> h ''X-Vault-Token'' = Some x"
    then show "o_headers (outgoing v a p tok) ''X-Vault-Token'' = Some x" by (rule mine)
  next
    fix a tok
    assume "p_headers p = None \<or> (\<exists>h. p_headers p = Some h \<and> h ''X-Vault-Token'' = None)"
    then show "o_headers (outgoing v a p tok) ''X-Vault-Token'' = Some tok" by (rule theirs)
  qed
qed

lemma static_agent:
  "getHttpsAgent static_vault demo_world =
     (Inr (Agent (Some ''CA'') True), static_vault\<lparr>httpsAgent := Some (Agent (Some ''CA'') True)\<rparr>,
      elapse 2 demo_world, [EvReadFile ''/var/run/secrets/vault/ca.crt''])"
  by (simp add: getHttpsAgent_def readFileAsync_def static_vault_def demo_vault_def demo_world_def
      elapse_def)

lemma static_token:
  "getToken (static_vault\<lparr>httpsAgent := Some (Agent (Some ''CA'') True)\<rparr>) (elapse 2 demo_world) =
     (Inr (VStr ''t-123''), static_vault\<lparr>httpsAgent := Some (Agent (Some ''CA'') True)\<rparr>,
      elapse 2 demo_world, [])"
  by (simp add: getToken_eq renewal_not_due_def static_vault_def demo_vault_def demo_world_def)

theorem request_merges_token_header_witness:
  "EvRequest (outgoing static_vault (Agent (Some ''CA'') True) demo_params (VStr ''t-123''))
     \<in> set (trace (request demo_params static_vault demo_world))
   \<and> p_headers demo_params = None
   \<and> o_headers (outgoing static_vault (Agent (Some ''CA'') True) demo_params (VStr ''t-123''))
       ''X-Vault-Token'' = Some (VStr ''t-123'')
   \<and> p_headers override_params = Some [''X-Vault-Token'' \<mapsto> VStr ''mine'']
   \<and> o_headers (outgoing static_vault (Agent (Some ''CA'') True) override_params (VStr ''t-123''))
       ''X-Vault-Token'' = Some (VStr ''mine'')"
proof -
  note d = request_merges_token_header [OF static_agent static_token, of demo_params]
  note o = request_merges_token_header [OF static_agent static_token, of override_params]
  have pd: "p_headers demo_params = None"
    by (simp add: demo_params_def)
  have po: "p_headers override_params = Some [''X-Vault-Token'' \<mapsto> VStr ''mine'']"
    "[''X-Vault-Token'' \<mapsto> VStr ''mine''] ''X-Vault-Token'' = Some (VStr ''mine'')"
    by (simp_all add: override_params_def demo_params_def)
  from d have 1: "EvRequest (outgoing static_vault (Agent (Some ''CA'') True) demo_params (VStr ''t-123''))
     \<in> set (trace (request demo_params static_vault demo_world))"
    by blast
  from d pd have 2: "o_headers (outgoing static_vault (Agent (Some ''CA'') True) demo_params (VStr ''t-123''))
       ''X-Vault-Token'' = Some (VStr ''t-123'')"
    by blast
  from o po have 3: "o_headers (outgoing static_vault (Agent (Some ''CA'') True) override_params (VStr ''t-123''))
       ''X-Vault-Token'' = Some (VStr ''mine'')"
    by blast
  from 1 2 3 pd po(1) show ?thesis by simp
qed

end
